theory Spec2Isabelle
  imports Complex_Main
begin

section \<open>Skin2Solid: data model\<close>

text \<open>
  The add-on works on the scene data of its host. The parts of that data the add-on
  reads or writes are modelled here: mesh vertices with their deform weights, vertex
  group definitions, modifiers, objects, collections, armature data-blocks and the
  add-on's own settings. Weights and the weight threshold are floats in the source; the
  only operation the add-on applies to them is the comparison \<open><\<close>, which on finite
  floats is the order of the reals, so they are modelled as \<^typ>\<open>real\<close>. Edges and
  faces of a mesh are never inspected by the add-on and are left out.
\<close>

record vertex_group_element =
  group :: nat
  weight :: real

record mesh_vertex =
  groups :: "vertex_group_element list"

record mesh =
  me_name :: string
  vertices :: "mesh_vertex list"

text \<open>
  A vertex group of an object. Its index (\<^verbatim>\<open>group.index\<close>) is its position in
  \<^verbatim>\<open>obj.vertex_groups\<close>; the weights of the vertices refer to it by that number.
\<close>

record vertex_group =
  vg_name :: string

datatype pose_position = REST | POSE

record armature =
  pose_position :: pose_position
  bones :: "string list"
  bones_active :: "string option"

text \<open>
  The kind of an object is fixed by the data-block it carries. The add-on only tests
  for \<^verbatim>\<open>'MESH'\<close> and \<^verbatim>\<open>'ARMATURE'\<close>; every other kind is \<open>OTHER\<close>. An armature
  data-block is referred to by its name, the key of \<^verbatim>\<open>bpy.data.armatures\<close>; a mesh
  data-block belongs to one working object and is stored with it.
\<close>

datatype object_type = MESH | ARMATURE | OTHER

datatype object_data = Mesh_data mesh | Armature_data string | Other_data

datatype modifier_type = ARMATURE_MODIFIER | OTHER_MODIFIER

record modifier =
  mod_type :: modifier_type
  mod_object :: "nat option"

record object =
  ob_name :: string
  ob_data :: object_data
  vertex_groups :: "vertex_group list"
  modifiers :: "modifier list"

record collection =
  co_name :: string
  co_objects :: "nat list"

record settings =
  objs_collection_original :: "nat option"
  objs_collection_created :: "nat option"
  rig :: "nat option"
  is_objects_prepared :: bool
  bake_frame_start :: int
  bake_frame_end :: int
  name_suffix :: string
  weight_threshold :: real

datatype mode = OBJECT_MODE | POSE_MODE

text \<open>
  The operations the add-on issues to its host, recorded in the order of issue: the
  data-block operations (copy, link, unlink, remove, vertex deletion, vertex group and
  modifier removal), the write to an armature's pose position, and the operators called
  through \<^verbatim>\<open>bpy.ops\<close>, whose effect on transforms, parents and animation data is the
  host's and is not modelled.
\<close>

datatype host_call =
    Collections_new string
  | Object_copy nat nat
  | Mesh_copy nat
  | Objects_link nat nat
  | Objects_unlink nat nat
  | Objects_remove nat
  | Bmesh_delete nat "nat list"
  | Vertex_groups_remove nat string
  | Vertex_groups_new nat string
  | Set_pose_position string pose_position
  | Modifiers_remove nat
  | Select_set nat
  | Mode_set mode
  | Select_all_deselect
  | Origin_set
  | Parent_clear
  | Parent_set string
  | Nla_bake int int

text \<open>
  The scene. An object is identified by its position in \<open>objects\<close> (\<^verbatim>\<open>bpy.data.objects\<close>),
  a collection by its position in \<open>collections\<close>; a removed object leaves \<open>None\<close>
  behind, so an identity is never reused and a new object is always distinct from every
  object that exists or existed. The mesh of a removed object stays in
  \<^verbatim>\<open>bpy.data.meshes\<close> without a user; \<open>orphan_meshes\<close> holds the names of such meshes,
  which remain taken.
\<close>

record scene =
  objects :: "object option list"
  collections :: "collection list"
  armatures :: "string \<rightharpoonup> armature"
  orphan_meshes :: "string list"
  skin2solid_settings :: settings
  active :: "nat option"
  calls :: "host_call list"

datatype error = KeyError | AttributeError | RuntimeError | ReferenceError

datatype report_level = ERROR

datatype operator_result = FINISHED | CANCELLED

section \<open>Access to the scene\<close>

definition get_object :: "scene \<Rightarrow> nat \<Rightarrow> object option" where
  "get_object s i = (if i < length (objects s) then objects s ! i else None)"

definition ob_type :: "object \<Rightarrow> object_type" where
  "ob_type obj = (case ob_data obj of Mesh_data me \<Rightarrow> MESH | Armature_data k \<Rightarrow> ARMATURE
                  | Other_data \<Rightarrow> OTHER)"

definition ob_mesh :: "object \<Rightarrow> mesh" where
  "ob_mesh obj = (case ob_data obj of Mesh_data me \<Rightarrow> me
                  | _ \<Rightarrow> \<lparr>me_name = [], vertices = []\<rparr>)"

text \<open>
  A pointer property of the settings is either unset or refers to an existing
  data-block: the host clears it when its target is removed. A reference that does not
  resolve is therefore read as unset.
\<close>

definition collection_original_ref :: "scene \<Rightarrow> nat option" where
  "collection_original_ref s =
     (case objs_collection_original (skin2solid_settings s) of
        None \<Rightarrow> None
      | Some c \<Rightarrow> if c < length (collections s) then Some c else None)"

definition collection_created_ref :: "scene \<Rightarrow> nat option" where
  "collection_created_ref s =
     (case objs_collection_created (skin2solid_settings s) of
        None \<Rightarrow> None
      | Some c \<Rightarrow> if c < length (collections s) then Some c else None)"

definition rig_ref :: "scene \<Rightarrow> nat option" where
  "rig_ref s =
     (case rig (skin2solid_settings s) of
        None \<Rightarrow> None
      | Some r \<Rightarrow> (case get_object s r of None \<Rightarrow> None | Some obj \<Rightarrow> Some r))"

definition issue :: "host_call \<Rightarrow> scene \<Rightarrow> scene" where
  "issue c s = s\<lparr>calls := calls s @ [c]\<rparr>"

definition put_object :: "nat \<Rightarrow> object \<Rightarrow> scene \<Rightarrow> scene" where
  "put_object i obj s = s\<lparr>objects := (objects s)[i := Some obj]\<rparr>"

section \<open>Names given by the host\<close>

text \<open>
  A data-block keeps the name assigned to it only when the name is at most 63 bytes long
  and no other data-block of its kind has it. The host cuts a longer name to 63 bytes;
  for a name that is taken it takes the name without a numeric extension \<open>.NNN\<close> as
  base and appends the smallest number from 1 on that no name with this base uses,
  written with at least three digits, shortening the base where the result would
  exceed 63 bytes.
\<close>

definition is_digit :: "char \<Rightarrow> bool" where
  "is_digit c = (c \<in> set ''0123456789'')"

definition digits_value :: "string \<Rightarrow> nat" where
  "digits_value ds = fold (\<lambda>c n. 10 * n + length (takeWhile (\<lambda>d. d \<noteq> c) ''0123456789'')) ds 0"

text \<open>Base and number of a name: \<open>Body.002\<close> has base \<open>Body\<close> and number 2, \<open>Body\<close> has number 0.\<close>

definition split_name_number :: "string \<Rightarrow> string \<times> nat" where
  "split_name_number name =
     (let ds = takeWhile is_digit (rev name)
      in case dropWhile is_digit (rev name) of
           [] \<Rightarrow> (name, 0)
         | c # base_rev \<Rightarrow>
             if c = CHR ''.'' \<and> ds \<noteq> [] then (rev base_rev, digits_value (rev ds))
             else (name, 0))"

function digits_of :: "nat \<Rightarrow> string" where
  "digits_of n =
     (if n < 10 then [''0123456789'' ! n]
      else digits_of (n div 10) @ [''0123456789'' ! (n mod 10)])"
  by pat_completeness auto
termination
  by (relation "measure (\<lambda>n. n)") auto

definition number_suffix :: "nat \<Rightarrow> string" where
  "number_suffix k = CHR ''.'' # replicate (3 - length (digits_of k)) CHR ''0'' @ digits_of k"

definition smallest_unused :: "nat list \<Rightarrow> nat" where
  "smallest_unused used =
     (case find (\<lambda>k. k \<notin> set used) [1..<length used + 2] of
        Some k \<Rightarrow> k
      | None \<Rightarrow> length used + 2)"

function numbered_name :: "string \<Rightarrow> string list \<Rightarrow> string" where
  "numbered_name base taken =
     (let used = map snd (filter (\<lambda>p. fst p = base) (map split_name_number taken));
          sfx = number_suffix (smallest_unused used)
      in if 63 < length base + length sfx \<and> base \<noteq> []
         then numbered_name (butlast base) taken
         else base @ sfx)"
  by pat_completeness auto
termination
  by (relation "measure (\<lambda>(base, taken). length base)") auto

definition unique_name :: "string list \<Rightarrow> string \<Rightarrow> string" where
  "unique_name taken name =
     (let n = take 63 name
      in if n \<notin> set taken then n else numbered_name (fst (split_name_number n)) taken)"

text \<open>The names taken among the objects, the meshes and the collections.\<close>

definition object_names :: "scene \<Rightarrow> string list" where
  "object_names s = map ob_name (List.map_filter (\<lambda>x. x) (objects s))"

definition mesh_names :: "scene \<Rightarrow> string list" where
  "mesh_names s =
     map (\<lambda>obj. me_name (ob_mesh obj))
       (filter (\<lambda>obj. ob_type obj = MESH) (List.map_filter (\<lambda>x. x) (objects s))) @
     orphan_meshes s"

definition collection_names :: "scene \<Rightarrow> string list" where
  "collection_names s = map co_name (collections s)"

text \<open>\<^verbatim>\<open>collection.objects.link(obj)\<close> and \<^verbatim>\<open>collection.objects.unlink(obj)\<close>.\<close>

definition objects_link :: "nat \<Rightarrow> nat \<Rightarrow> scene \<Rightarrow> scene" where
  "objects_link c i s =
     issue (Objects_link c i)
       (s\<lparr>collections := (collections s)
            [c := (collections s ! c)\<lparr>co_objects := co_objects (collections s ! c) @ [i]\<rparr>]\<rparr>)"

definition objects_unlink :: "nat \<Rightarrow> nat \<Rightarrow> scene \<Rightarrow> scene" where
  "objects_unlink c i s =
     issue (Objects_unlink c i)
       (s\<lparr>collections := (collections s)
            [c := (collections s ! c)\<lparr>co_objects := removeAll i (co_objects (collections s ! c))\<rparr>]\<rparr>)"

text \<open>
  \<^verbatim>\<open>bpy.data.objects.remove(obj)\<close>: the object is gone from the scene data, from every
  collection, and from the pointers that referred to it; its mesh is left behind.
\<close>

definition objects_remove :: "nat \<Rightarrow> scene \<Rightarrow> scene" where
  "objects_remove i s =
     issue (Objects_remove i)
       (s\<lparr>objects := (objects s)[i := None],
          orphan_meshes := orphan_meshes s @
            (case get_object s i of
               None \<Rightarrow> []
             | Some obj \<Rightarrow> if ob_type obj = MESH then [me_name (ob_mesh obj)] else []),
          collections := map (\<lambda>c. c\<lparr>co_objects := removeAll i (co_objects c)\<rparr>) (collections s),
          active := (if active s = Some i then None else active s),
          skin2solid_settings := (skin2solid_settings s)
            \<lparr>rig := (if rig (skin2solid_settings s) = Some i then None
                      else rig (skin2solid_settings s))\<rparr>\<rparr>)"

text \<open>
  \<^verbatim>\<open>bpy.ops.object.mode_set(mode=...)\<close>: the operator needs an active object; called
  without one it raises.
\<close>

definition mode_set :: "mode \<Rightarrow> scene \<Rightarrow> error + scene" where
  "mode_set m s =
     (case active s of
        None \<Rightarrow> Inl RuntimeError
      | Some a \<Rightarrow>
          (case get_object s a of
             None \<Rightarrow> Inl RuntimeError
           | Some obj \<Rightarrow> Inr (issue (Mode_set m) s)))"

section \<open>Settings and their update hook\<close>

definition update_property :: "scene \<Rightarrow> scene" where
  "update_property s =
     s\<lparr>skin2solid_settings := (skin2solid_settings s)\<lparr>is_objects_prepared := False\<rparr>\<rparr>"

text \<open>
  The three pointer properties are declared with \<^verbatim>\<open>update=update_property\<close>: the host
  stores the assigned value and then calls the hook.
\<close>

definition assign_objs_collection_original :: "nat option \<Rightarrow> scene \<Rightarrow> scene" where
  "assign_objs_collection_original v s =
     update_property
       (s\<lparr>skin2solid_settings := (skin2solid_settings s)\<lparr>objs_collection_original := v\<rparr>\<rparr>)"

definition assign_objs_collection_created :: "nat option \<Rightarrow> scene \<Rightarrow> scene" where
  "assign_objs_collection_created v s =
     update_property
       (s\<lparr>skin2solid_settings := (skin2solid_settings s)\<lparr>objs_collection_created := v\<rparr>\<rparr>)"

definition assign_rig :: "nat option \<Rightarrow> scene \<Rightarrow> scene" where
  "assign_rig v s =
     update_property (s\<lparr>skin2solid_settings := (skin2solid_settings s)\<lparr>rig := v\<rparr>\<rparr>)"

section \<open>Weight table and vertex selection\<close>

text \<open>
  \<^verbatim>\<open>vertex_group_data\<close>: for every vertex of the original mesh, the list of its
  \<open>(group, weight)\<close> pairs, captured before any duplicate is made.
\<close>

definition vertex_group_data :: "mesh_vertex list \<Rightarrow> (nat \<times> real) list list" where
  "vertex_group_data verts = map (\<lambda>vert. map (\<lambda>g. (group g, weight g)) (groups vert)) verts"

text \<open>
  The inner \<^verbatim>\<open>for vert_group in groups_for_vertex\<close> loop: it stops at the first pair
  of the wanted group whose weight is strictly below the threshold and reports whether
  it found one.
\<close>

fun below_threshold :: "nat \<Rightarrow> real \<Rightarrow> (nat \<times> real) list \<Rightarrow> bool" where
  "below_threshold gi t [] = False"
| "below_threshold gi t (vert_group # rest) =
     (if fst vert_group = gi \<and> snd vert_group < t then True else below_threshold gi t rest)"

text \<open>
  What one pass of the \<^verbatim>\<open>enumerate(bm.verts)\<close> loop appends to \<^verbatim>\<open>to_delete\<close> for the
  vertex with index \<open>i\<close>. A vertex is identified by its index in the mesh.
\<close>

definition marks_for_vertex :: "nat \<Rightarrow> real \<Rightarrow> (nat \<times> real) list \<Rightarrow> nat \<Rightarrow> nat list" where
  "marks_for_vertex gi t groups_for_vertex i =
     (let vert_groups_of_vertex = map fst (filter (\<lambda>(g, w). g = gi) groups_for_vertex)
      in (if length vert_groups_of_vertex = 0 then [i] else []) @
         (if below_threshold gi t groups_for_vertex then [i] else []))"

text \<open>
  The whole loop over the \<open>n\<close> vertices of the duplicate. The duplicate is a copy of
  the original mesh, so \<open>n\<close> is the length of the weight table and every
  \<^verbatim>\<open>vertex_group_data[i]\<close> is in range.
\<close>

definition to_delete :: "(nat \<times> real) list list \<Rightarrow> nat \<Rightarrow> real \<Rightarrow> nat list" where
  "to_delete vgd gi t =
     concat (map (\<lambda>i. marks_for_vertex gi t (vgd ! i) i) [0..<length vgd])"

text \<open>
  \<^verbatim>\<open>bmesh.ops.delete(bm, geom=to_delete, context='VERTS')\<close>: the vertices listed are
  removed, the others stay in their order. \<open>kept_indices\<close> names the survivors by their
  index in the original mesh; the mesh written back holds the vertices at these indices.
\<close>

definition kept_indices :: "nat \<Rightarrow> nat list \<Rightarrow> nat list" where
  "kept_indices n del = filter (\<lambda>i. i \<notin> set del) [0..<n]"

definition bmesh_delete_verts :: "mesh_vertex list \<Rightarrow> nat list \<Rightarrow> mesh_vertex list" where
  "bmesh_delete_verts verts del = map (\<lambda>i. verts ! i) (kept_indices (length verts) del)"


section \<open>Names\<close>

text \<open>
  Python's \<^verbatim>\<open>str.replace(old, new)\<close>: the occurrences of \<open>old\<close> are found from the
  left, each search resuming behind the occurrence just replaced. For an empty \<open>old\<close>
  Python puts \<open>new\<close> before every character and at the end.
\<close>

function replace_scan :: "string \<Rightarrow> string \<Rightarrow> string \<Rightarrow> string" where
  "replace_scan [] old new = []"
| "replace_scan (c # cs) old new =
     (if old \<noteq> [] \<and> take (length old) (c # cs) = old
      then new @ replace_scan (drop (length old) (c # cs)) old new
      else c # replace_scan cs old new)"
  by pat_completeness auto
termination
  by (relation "measure (\<lambda>(s, old, new). length s)") auto

definition replace :: "string \<Rightarrow> string \<Rightarrow> string \<Rightarrow> string" where
  "replace s old new =
     (if old = [] then new @ concat (map (\<lambda>c. c # new) s) else replace_scan s old new)"

text \<open>
  The name given to the partition of \<open>mesh_obj\<close> for one vertex group:
  \<^verbatim>\<open>f"{mesh_obj.name}_{group.name}".replace(settings.name_suffix, "") + settings.name_suffix\<close>.
\<close>

definition partition_name :: "string \<Rightarrow> string \<Rightarrow> string \<Rightarrow> string" where
  "partition_name mesh_obj_name group_name suffix =
     replace (mesh_obj_name @ ''_'' @ group_name) suffix [] @ suffix"

text \<open>
  The names asked for a working copy and for its mesh in \<^verbatim>\<open>create_working_collection\<close>:
  \<^verbatim>\<open>obj.name + settings.name_suffix\<close> and \<^verbatim>\<open>obj.data.name + settings.name_suffix\<close>.
\<close>

definition working_name :: "string \<Rightarrow> string \<Rightarrow> string" where
  "working_name source_name suffix = source_name @ suffix"

text \<open>Python's \<^verbatim>\<open>old in s\<close>: the string \<open>old\<close> occurs somewhere in \<open>s\<close>.\<close>

fun contains :: "string \<Rightarrow> string \<Rightarrow> bool" where
  "contains [] old = (old = [])"
| "contains (c # cs) old = (take (length old) (c # cs) = old \<or> contains cs old)"

section \<open>Separation by vertex groups\<close>

text \<open>
  The loop \<^verbatim>\<open>for vg in duplicate.vertex_groups: if vg.name != group.name: remove(vg)\<close>,
  read as visiting every group once. Removing a vertex group takes its weights off the
  vertices and moves the groups behind it, and the weights that refer to them, one index
  down. What is left are the groups named \<open>name\<close>, numbered from 0 in their old
  order, and on every vertex the weights of these groups under their new numbers.
\<close>

definition kept_positions :: "string \<Rightarrow> vertex_group list \<Rightarrow> nat list" where
  "kept_positions name vgs = filter (\<lambda>j. vg_name (vgs ! j) = name) [0..<length vgs]"

definition keep_weights :: "nat list \<Rightarrow> mesh_vertex \<Rightarrow> mesh_vertex" where
  "keep_weights kept v =
     v\<lparr>groups :=
         map (\<lambda>e. e\<lparr>group := length (takeWhile (\<lambda>j. j \<noteq> group e) kept)\<rparr>)
           (filter (\<lambda>e. group e \<in> set kept) (groups v))\<rparr>"

text \<open>
  One pass of the loop over \<^verbatim>\<open>enumerate(mesh_obj.vertex_groups)\<close> in
  \<^verbatim>\<open>separate_mesh_by_vertex_groups\<close>, for the group \<open>grp\<close> at position \<open>k\<close>. The
  original object \<open>mesh_obj\<close> (with identity \<open>m\<close>) is not written in the loop, and
  \<open>vgd\<close> is the weight table taken from it before the loop. The duplicate is a copy
  of the original with a mesh of its own; it is linked into the working collection
  \<open>c\<close>, loses the marked vertices, is renamed, and keeps of its vertex groups those
  named like \<open>grp\<close>, or gets a new one of that name.

  \<open>partition_duplicate\<close> is the duplicate as the pass leaves it, with the names
  \<open>nm\<close> and \<open>me_nm\<close> that the host gave to it and to its mesh.
\<close>

definition partition_duplicate ::
  "object \<Rightarrow> (nat \<times> real) list list \<Rightarrow> nat \<Rightarrow> vertex_group \<Rightarrow> real \<Rightarrow> string \<Rightarrow> string \<Rightarrow> object" where
  "partition_duplicate mesh_obj vgd k grp t nm me_nm =
     (let del = to_delete vgd k t;
          verts = bmesh_delete_verts (vertices (ob_mesh mesh_obj)) del;
          existing_vg_names = map vg_name (vertex_groups mesh_obj);
          kept = kept_positions (vg_name grp) (vertex_groups mesh_obj)
      in if vg_name grp \<in> set existing_vg_names
         then mesh_obj
                \<lparr>ob_name := nm,
                 ob_data := Mesh_data \<lparr>me_name = me_nm, vertices = map (keep_weights kept) verts\<rparr>,
                 vertex_groups := map (\<lambda>j. vertex_groups mesh_obj ! j) kept\<rparr>
         else mesh_obj
                \<lparr>ob_name := nm,
                 ob_data := Mesh_data \<lparr>me_name = me_nm, vertices = verts\<rparr>,
                 vertex_groups := vertex_groups mesh_obj @ [\<lparr>vg_name = vg_name grp\<rparr>]\<rparr>)"

text \<open>
  The pass itself. The object is renamed first and its mesh then takes the name the
  object has got: \<^verbatim>\<open>duplicate.data.name = duplicate.name\<close>.
\<close>

definition separate_group ::
  "nat \<Rightarrow> object \<Rightarrow> nat \<Rightarrow> (nat \<times> real) list list \<Rightarrow> nat \<times> vertex_group \<Rightarrow> scene \<Rightarrow> scene" where
  "separate_group m mesh_obj c vgd kg s =
     (let k = fst kg;
          grp = snd kg;
          st = skin2solid_settings s;
          d = length (objects s);
          del = to_delete vgd k (weight_threshold st);
          nm = unique_name (object_names s)
                 (partition_name (ob_name mesh_obj) (vg_name grp) (name_suffix st));
          me_nm = unique_name (mesh_names s) nm;
          existing_vg_names = map vg_name (vertex_groups mesh_obj);
          others = filter (\<lambda>vg. vg_name vg \<noteq> vg_name grp) (vertex_groups mesh_obj);
          duplicate = partition_duplicate mesh_obj vgd k grp (weight_threshold st) nm me_nm;
          s1 = issue (Mesh_copy d) (issue (Object_copy m d) (s\<lparr>objects := objects s @ [Some duplicate]\<rparr>));
          s2 = issue (Bmesh_delete d del) (objects_link c d s1)
      in s2\<lparr>calls := calls s2 @
                (if vg_name grp \<in> set existing_vg_names
                 then map (\<lambda>vg. Vertex_groups_remove d (vg_name vg)) others
                 else [Vertex_groups_new d (vg_name grp)])\<rparr>)"

text \<open>
  \<^verbatim>\<open>separate_mesh_by_vertex_groups(mesh_obj)\<close>. Unlinking an object from a collection
  that does not hold it raises in the host.
\<close>

definition separate_mesh_by_vertex_groups :: "nat \<Rightarrow> scene \<Rightarrow> error + scene" where
  "separate_mesh_by_vertex_groups m s =
     (case get_object s m of
        None \<Rightarrow> Inl ReferenceError
      | Some mesh_obj \<Rightarrow>
          if ob_type mesh_obj \<noteq> MESH then Inr s
          else (case collection_created_ref s of
                  None \<Rightarrow> Inr s
                | Some c \<Rightarrow>
                    let vgd = vertex_group_data (vertices (ob_mesh mesh_obj));
                        s1 = fold (separate_group m mesh_obj c vgd)
                               (zip [0..<length (vertex_groups mesh_obj)] (vertex_groups mesh_obj)) s
                    in if m \<notin> set (co_objects (collections s1 ! c)) then Inl RuntimeError
                       else Inr (objects_remove m (objects_unlink c m s1))))"

section \<open>Rest pose, modifiers, origins, parenting\<close>

text \<open>
  \<^verbatim>\<open>set_rig_to_rest_pose(rig)\<close> writes the pose position of the armature data-block
  found under the fixed key \<^verbatim>\<open>"Armature"\<close>; the lookup raises when there is none.
\<close>

definition set_rig_to_rest_pose :: "nat \<Rightarrow> scene \<Rightarrow> error + scene" where
  "set_rig_to_rest_pose r s =
     (case get_object s r of
        None \<Rightarrow> Inl ReferenceError
      | Some rig_obj \<Rightarrow>
          if ob_type rig_obj \<noteq> ARMATURE then Inr s
          else (case armatures s ''Armature'' of
                  None \<Rightarrow> Inl KeyError
                | Some a \<Rightarrow>
                    Inr (issue (Set_pose_position ''Armature'' REST)
                          (s\<lparr>armatures := (armatures s)(''Armature'' \<mapsto> a\<lparr>pose_position := REST\<rparr>)\<rparr>))))"

text \<open>
  The loop \<^verbatim>\<open>for mod in obj.modifiers\<close> of \<^verbatim>\<open>clear_object_modifiers\<close>, which removes
  while it iterates, is read as visiting every modifier once.
\<close>

definition clear_modifiers_of :: "nat \<Rightarrow> scene \<Rightarrow> scene" where
  "clear_modifiers_of i s =
     (case get_object s i of
        None \<Rightarrow> s
      | Some obj \<Rightarrow>
          if ob_type obj \<noteq> MESH then s
          else (put_object i
                  (obj\<lparr>modifiers := filter (\<lambda>md. mod_type md \<noteq> ARMATURE_MODIFIER) (modifiers obj)\<rparr>) s)
               \<lparr>calls := calls s @
                  map (\<lambda>md. Modifiers_remove i)
                    (filter (\<lambda>md. mod_type md = ARMATURE_MODIFIER) (modifiers obj))\<rparr>)"

definition clear_object_modifiers :: "scene \<Rightarrow> scene" where
  "clear_object_modifiers s =
     (case collection_created_ref s of
        None \<Rightarrow> s
      | Some c \<Rightarrow> fold clear_modifiers_of (co_objects (collections s ! c)) s)"

definition origin_to_center_of :: "nat \<Rightarrow> scene \<Rightarrow> scene" where
  "origin_to_center_of i s =
     (case get_object s i of
        None \<Rightarrow> s
      | Some obj \<Rightarrow>
          if ob_type obj \<noteq> MESH then s
          else s\<lparr>active := Some i,
                 calls := calls s @ [Select_all_deselect, Select_set i, Origin_set]\<rparr>)"

definition set_object_origins_to_center :: "scene \<Rightarrow> error + scene" where
  "set_object_origins_to_center s =
     (case collection_created_ref s of
        None \<Rightarrow> Inr s
      | Some c \<Rightarrow>
          (case mode_set OBJECT_MODE s of
             Inl e \<Rightarrow> Inl e
           | Inr s1 \<Rightarrow> Inr (fold origin_to_center_of (co_objects (collections s ! c)) s1)))"

text \<open>
  The armature data-block of the rig, as \<^verbatim>\<open>rig.pose.bones\<close> and \<^verbatim>\<open>rig.data\<close> reach
  it. For a rig that is unset or not an armature, \<^verbatim>\<open>rig.pose\<close> is \<^verbatim>\<open>None\<close> and
  \<^verbatim>\<open>rig.data\<close> has no pose position: both accesses raise.
\<close>

definition rig_armature :: "scene \<Rightarrow> error + nat \<times> string \<times> armature" where
  "rig_armature s =
     (case rig_ref s of
        None \<Rightarrow> Inl AttributeError
      | Some r \<Rightarrow>
          (case get_object s r of
             None \<Rightarrow> Inl AttributeError
           | Some rig_obj \<Rightarrow>
               (case ob_data rig_obj of
                  Armature_data k \<Rightarrow>
                    (case armatures s k of None \<Rightarrow> Inl AttributeError | Some a \<Rightarrow> Inr (r, k, a))
                | _ \<Rightarrow> Inl AttributeError)))"

text \<open>
  One pass of the loop of \<^verbatim>\<open>parent_objects_to_corresponding_bones\<close>. The first
  operator call, \<^verbatim>\<open>mode_set(mode='OBJECT')\<close>, comes before the pass makes the object
  active; after it an active object is always there.
\<close>

definition parent_object :: "nat \<Rightarrow> scene \<Rightarrow> error + scene" where
  "parent_object i s =
     (case get_object s i of
        None \<Rightarrow> Inr s
      | Some obj \<Rightarrow>
          if ob_type obj \<noteq> MESH then Inr s
          else if length (vertex_groups obj) = 0 then Inr s
          else (let bone_name = vg_name (vertex_groups obj ! 0) in
                case rig_armature s of
                  Inl e \<Rightarrow> Inl e
                | Inr (r, k, a) \<Rightarrow>
                    if bone_name \<notin> set (bones a) then Inr s
                    else (case mode_set OBJECT_MODE s of
                            Inl e \<Rightarrow> Inl e
                          | Inr s1 \<Rightarrow>
                              Inr (s1\<lparr>active := Some r,
                                      armatures := (armatures s1)(k \<mapsto> a\<lparr>bones_active := Some bone_name\<rparr>),
                                      calls := calls s1 @
                                        [Select_all_deselect, Select_set i,
                                         Parent_clear, Select_set r, Mode_set POSE_MODE,
                                         Parent_set bone_name]\<rparr>))))"

fun parent_each :: "nat list \<Rightarrow> scene \<Rightarrow> error + scene" where
  "parent_each [] s = Inr s"
| "parent_each (i # rest) s =
     (case parent_object i s of Inl e \<Rightarrow> Inl e | Inr s' \<Rightarrow> parent_each rest s')"

definition parent_objects_to_corresponding_bones :: "scene \<Rightarrow> error + scene" where
  "parent_objects_to_corresponding_bones s =
     (case collection_created_ref s of
        None \<Rightarrow> Inl AttributeError
      | Some c \<Rightarrow>
          (case parent_each (co_objects (collections s ! c)) s of
             Inl e \<Rightarrow> Inl e
           | Inr s1 \<Rightarrow>
               (case mode_set OBJECT_MODE s1 of
                  Inl e \<Rightarrow> Inl e
                | Inr s2 \<Rightarrow>
                    (case rig_armature s2 of
                       Inl e \<Rightarrow> Inl e
                     | Inr (r, k, a) \<Rightarrow>
                         Inr (issue (Set_pose_position k POSE)
                               (s2\<lparr>armatures := (armatures s2)(k \<mapsto> a\<lparr>pose_position := POSE\<rparr>)\<rparr>))))))"

section \<open>The working collection\<close>

definition should_object_be_processed :: "scene \<Rightarrow> object \<Rightarrow> bool" where
  "should_object_be_processed s obj =
     (case rig_ref s of
        None \<Rightarrow> False
      | Some r \<Rightarrow>
          if ob_type obj \<noteq> MESH then False
          else if length (vertex_groups obj) = 0 then False
          else if \<not> list_ex (\<lambda>md. mod_type md = ARMATURE_MODIFIER \<and> mod_object md = Some r)
                       (modifiers obj) then False
          else True)"

text \<open>
  \<^verbatim>\<open>create_new_collection(name)\<close>: the new collection gets the name if the host has
  it free.
\<close>

definition create_new_collection :: "string \<Rightarrow> scene \<Rightarrow> scene" where
  "create_new_collection name s =
     issue (Collections_new (unique_name (collection_names s) name))
       (s\<lparr>collections := collections s @
            [\<lparr>co_name = unique_name (collection_names s) name, co_objects = []\<rparr>]\<rparr>)"

text \<open>
  One pass of the loop of \<^verbatim>\<open>create_working_collection\<close> over the objects of the
  source collection; \<open>c\<close> is the new collection. \<open>working_duplicate\<close> is the copy of
  an object that is processed: the object and its mesh, each under the name the host
  gives it when asked for the source's name plus the suffix.
\<close>

definition working_duplicate :: "object \<Rightarrow> scene \<Rightarrow> object" where
  "working_duplicate obj s =
     obj\<lparr>ob_name := unique_name (object_names s)
                      (working_name (ob_name obj) (name_suffix (skin2solid_settings s))),
         ob_data := Mesh_data ((ob_mesh obj)
           \<lparr>me_name := unique_name (mesh_names s)
                         (working_name (me_name (ob_mesh obj)) (name_suffix (skin2solid_settings s)))\<rparr>)\<rparr>"

definition working_copy :: "nat \<Rightarrow> nat \<Rightarrow> scene \<Rightarrow> scene" where
  "working_copy c i s =
     (case get_object s i of
        None \<Rightarrow> s
      | Some obj \<Rightarrow>
          if \<not> should_object_be_processed s obj then s
          else (let d = length (objects s);
                    duplicate = working_duplicate obj s
                in objects_link c d
                     (issue (Mesh_copy d)
                        (issue (Object_copy i d)
                           (s\<lparr>active := Some i, objects := objects s @ [Some duplicate]\<rparr>)))))"

text \<open>What one pass adds to the scene's objects for the object \<open>i\<close> of the source collection.\<close>

definition copied :: "scene \<Rightarrow> nat \<Rightarrow> object option list" where
  "copied s i =
     (case get_object s i of
        None \<Rightarrow> []
      | Some obj \<Rightarrow>
          if should_object_be_processed s obj then [Some (working_duplicate obj s)] else [])"

text \<open>
  \<^verbatim>\<open>create_working_collection()\<close>; the result is the scene together with the returned
  collection, \<open>None\<close> when no source collection is set.
\<close>

definition create_working_collection :: "scene \<Rightarrow> nat option \<times> scene" where
  "create_working_collection s =
     (case collection_original_ref s of
        None \<Rightarrow> (None, s)
      | Some co \<Rightarrow>
          (let c = length (collections s);
               s1 = create_new_collection
                      (co_name (collections s ! co) @ name_suffix (skin2solid_settings s)) s;
               s2 = fold (working_copy c) (co_objects (collections s ! co)) s1
           in (Some c, assign_objs_collection_created (Some c) s2)))"

section \<open>Preparation\<close>

text \<open>
  The loop of \<^verbatim>\<open>prepare_objects\<close> that separates the working objects with more than
  one vertex group; it runs over the objects the working collection holds when the loop
  starts.
\<close>

fun separate_each :: "nat list \<Rightarrow> scene \<Rightarrow> error + scene" where
  "separate_each [] s = Inr s"
| "separate_each (i # rest) s =
     (case get_object s i of
        None \<Rightarrow> separate_each rest s
      | Some obj \<Rightarrow>
          if ob_type obj \<noteq> MESH then separate_each rest s
          else if length (vertex_groups obj) > 1
          then (case separate_mesh_by_vertex_groups i s of
                  Inl e \<Rightarrow> Inl e
                | Inr s' \<Rightarrow> separate_each rest s')
          else separate_each rest s)"

definition prepare_objects :: "scene \<Rightarrow> error + scene" where
  "prepare_objects s =
     (case collection_original_ref s of
        None \<Rightarrow> Inr s
      | Some co \<Rightarrow>
          (case rig_ref s of
             None \<Rightarrow> Inr s
           | Some r \<Rightarrow>
               (case create_working_collection s of
                  (None, s1) \<Rightarrow> Inl AttributeError
                | (Some c, s1) \<Rightarrow>
                    (case separate_each (co_objects (collections s1 ! c)) s1 of
                       Inl e \<Rightarrow> Inl e
                     | Inr s2 \<Rightarrow>
                         (case set_rig_to_rest_pose r s2 of
                            Inl e \<Rightarrow> Inl e
                          | Inr s3 \<Rightarrow>
                              (case set_object_origins_to_center (clear_object_modifiers s3) of
                                 Inl e \<Rightarrow> Inl e
                               | Inr s5 \<Rightarrow>
                                   (case parent_objects_to_corresponding_bones s5 of
                                      Inl e \<Rightarrow> Inl e
                                    | Inr s6 \<Rightarrow>
                                        Inr (s6\<lparr>skin2solid_settings := (skin2solid_settings s6)
                                                   \<lparr>is_objects_prepared := True\<rparr>\<rparr>))))))))"

section \<open>Baking\<close>

definition select_for_bake :: "nat \<Rightarrow> scene \<Rightarrow> scene" where
  "select_for_bake i s =
     (case get_object s i of
        None \<Rightarrow> s
      | Some obj \<Rightarrow>
          if ob_type obj \<noteq> MESH then s
          else issue (Select_set i) (s\<lparr>active := Some i\<rparr>))"

text \<open>
  The operator calls of \<^verbatim>\<open>bake_animation\<close> come after it has made sure that an
  object is active, so the mode change has what it needs.
\<close>

definition bake_selected :: "nat list \<Rightarrow> scene \<Rightarrow> scene" where
  "bake_selected objs s =
     issue (Nla_bake (bake_frame_start (skin2solid_settings s)) (bake_frame_end (skin2solid_settings s)))
       (fold select_for_bake objs (issue Select_all_deselect (issue (Mode_set OBJECT_MODE) s)))"

definition bake_animation :: "scene \<Rightarrow> scene" where
  "bake_animation s =
     (case collection_created_ref s of
        None \<Rightarrow> s
      | Some c \<Rightarrow>
          (let objs = co_objects (collections s ! c) in
           if active s = None
           then (if length objs = 0 then s
                 else bake_selected objs (s\<lparr>active := Some (objs ! 0)\<rparr>))
           else bake_selected objs s))"

section \<open>Operators\<close>

text \<open>
  \<^verbatim>\<open>verify_operator(operator, check_preparation)\<close>: the verdict and what it reports
  on the operator.
\<close>

definition verify_operator :: "bool \<Rightarrow> scene \<Rightarrow> bool \<times> (report_level \<times> string) list" where
  "verify_operator check_preparation s =
     (if collection_original_ref s = None
      then (False, [(ERROR, ''Collection not set! Please select a collection first.'')])
      else if rig_ref s = None
      then (False, [(ERROR, ''Rig not set! Please select a rig object first.'')])
      else if check_preparation \<and> \<not> is_objects_prepared (skin2solid_settings s)
      then (False, [(ERROR, ''Objects aren't prepared! Please run the 'Prepare Objects' operator first. '')])
      else (True, []))"

text \<open>
  The \<^verbatim>\<open>execute\<close> methods of the bake and prepare operators: the operator's result, its
  reports and the scene it leaves. An exception of the body leaves the operator.
\<close>

definition bake_animation_execute ::
  "scene \<Rightarrow> operator_result \<times> (report_level \<times> string) list \<times> scene" where
  "bake_animation_execute s =
     (case verify_operator True s of
        (ok, reports) \<Rightarrow>
          if \<not> ok then (CANCELLED, reports, s)
          else (FINISHED, reports, bake_animation s))"

definition prepare_objects_execute ::
  "scene \<Rightarrow> error + operator_result \<times> (report_level \<times> string) list \<times> scene" where
  "prepare_objects_execute s =
     (case verify_operator False s of
        (ok, reports) \<Rightarrow>
          if \<not> ok then Inr (CANCELLED, reports, s)
          else (case prepare_objects s of
                  Inl e \<Rightarrow> Inl e
                | Inr s' \<Rightarrow> Inr (FINISHED, reports, s')))"


section \<open>Example scenes\<close>

text \<open>
  A mesh of four vertices skinned to two groups, \<open>A\<close> with index 0 and \<open>B\<close> with
  index 1: vertex 0 has weight 0.9 for \<open>A\<close>, vertex 1 has weight 0.2 for \<open>A\<close>,
  vertex 2 has weight 1.0 for \<open>B\<close>, vertex 3 has no weight.
\<close>

definition example_verts :: "mesh_vertex list" where
  "example_verts =
     [\<lparr>groups = [\<lparr>group = 0, weight = 0.9\<rparr>]\<rparr>,
      \<lparr>groups = [\<lparr>group = 0, weight = 0.2\<rparr>]\<rparr>,
      \<lparr>groups = [\<lparr>group = 1, weight = 1.0\<rparr>]\<rparr>,
      \<lparr>groups = []\<rparr>]"

text \<open>A mesh with one vertex that two groups share with weight 0.5 each, and one vertex of group 0 alone.\<close>

definition shared_verts :: "mesh_vertex list" where
  "shared_verts =
     [\<lparr>groups = [\<lparr>group = 0, weight = 0.5\<rparr>, \<lparr>group = 1, weight = 0.5\<rparr>]\<rparr>,
      \<lparr>groups = [\<lparr>group = 0, weight = 1.0\<rparr>]\<rparr>]"

text \<open>
  A scene with a rig (object 0, on the armature data-block \<open>Armature\<close> with bones
  \<open>A\<close> and \<open>B\<close>), the skinned mesh object \<open>Body\<close> (object 1, mesh \<open>Cube\<close>,
  deformed by the rig) and an object of another kind (object 2); the source collection
  \<open>Characters\<close> holds objects 1 and 2.
\<close>

definition example_body :: object where
  "example_body =
     \<lparr>ob_name = ''Body'',
      ob_data = Mesh_data \<lparr>me_name = ''Cube'', vertices = example_verts\<rparr>,
      vertex_groups = [\<lparr>vg_name = ''A''\<rparr>, \<lparr>vg_name = ''B''\<rparr>],
      modifiers = [\<lparr>mod_type = ARMATURE_MODIFIER, mod_object = Some 0\<rparr>]\<rparr>"

definition example_settings :: settings where
  "example_settings =
     \<lparr>objs_collection_original = Some 0, objs_collection_created = None, rig = Some 0,
      is_objects_prepared = False, bake_frame_start = 0, bake_frame_end = 250,
      name_suffix = ''_Solid'', weight_threshold = 0.3\<rparr>"

definition example_scene :: scene where
  "example_scene =
     \<lparr>objects =
        [Some \<lparr>ob_name = ''Rig'', ob_data = Armature_data ''Armature'',
               vertex_groups = [], modifiers = []\<rparr>,
         Some example_body,
         Some \<lparr>ob_name = ''Lamp'', ob_data = Other_data, vertex_groups = [], modifiers = []\<rparr>],
      collections = [\<lparr>co_name = ''Characters'', co_objects = [1, 2]\<rparr>],
      armatures = [''Armature'' \<mapsto> \<lparr>pose_position = POSE, bones = [''A'', ''B''], bones_active = None\<rparr>],
      orphan_meshes = [],
      skin2solid_settings = example_settings,
      active = None,
      calls = []\<rparr>"

text \<open>
  The same scene with the rig on an armature data-block named \<open>Skeleton\<close>, beside
  another armature data-block that is named \<open>Armature\<close>; both are in pose position.
\<close>

definition skeleton_scene :: scene where
  "skeleton_scene =
     example_scene
       \<lparr>objects :=
          [Some \<lparr>ob_name = ''Rig'', ob_data = Armature_data ''Skeleton'',
                 vertex_groups = [], modifiers = []\<rparr>,
           Some example_body,
           Some \<lparr>ob_name = ''Lamp'', ob_data = Other_data, vertex_groups = [], modifiers = []\<rparr>],
        armatures :=
          [''Armature'' \<mapsto> \<lparr>pose_position = POSE, bones = [], bones_active = None\<rparr>,
           ''Skeleton'' \<mapsto> \<lparr>pose_position = POSE, bones = [''A'', ''B''], bones_active = None\<rparr>]\<rparr>"

text \<open>
  The example scene with the source collection also set as the working collection, the
  rig's armature in rest position, the preparation flag raised and the body active; and the example
  scene with a third vertex group \<open>C\<close> on the body, to which no vertex is weighted.
\<close>

definition rest_scene :: scene where
  "rest_scene =
     example_scene
       \<lparr>armatures := [''Armature'' \<mapsto> \<lparr>pose_position = REST, bones = [''A'', ''B''], bones_active = None\<rparr>],
        skin2solid_settings := example_settings
          \<lparr>objs_collection_created := Some 0, is_objects_prepared := True\<rparr>,
        active := Some 1\<rparr>"

definition three_group_scene :: scene where
  "three_group_scene =
     example_scene
       \<lparr>objects :=
          [Some \<lparr>ob_name = ''Rig'', ob_data = Armature_data ''Armature'',
                 vertex_groups = [], modifiers = []\<rparr>,
           Some (example_body
             \<lparr>vertex_groups := [\<lparr>vg_name = ''A''\<rparr>, \<lparr>vg_name = ''B''\<rparr>,
                                \<lparr>vg_name = ''C''\<rparr>]\<rparr>)],
        collections := [\<lparr>co_name = ''Characters_Solid'', co_objects = [1]\<rparr>],
        skin2solid_settings := example_settings\<lparr>objs_collection_created := Some 0\<rparr>\<rparr>"

text \<open>
  The scene with the working collection as above and the body on the mesh of
  \<open>shared_verts\<close>, with the groups \<open>A\<close> and \<open>B\<close>.
\<close>

definition shared_scene :: scene where
  "shared_scene =
     example_scene
       \<lparr>objects :=
          [Some \<lparr>ob_name = ''Rig'', ob_data = Armature_data ''Armature'',
                 vertex_groups = [], modifiers = []\<rparr>,
           Some (example_body\<lparr>ob_data := Mesh_data \<lparr>me_name = ''Cube'', vertices = shared_verts\<rparr>\<rparr>)],
        collections := [\<lparr>co_name = ''Characters_Solid'', co_objects = [1]\<rparr>],
        skin2solid_settings := example_settings\<lparr>objs_collection_created := Some 0\<rparr>\<rparr>"

text \<open>The example scene with the body already named \<open>X_Solid\<close>.\<close>

definition solid_scene :: scene where
  "solid_scene =
     example_scene
       \<lparr>objects :=
          [Some \<lparr>ob_name = ''Rig'', ob_data = Armature_data ''Armature'',
                 vertex_groups = [], modifiers = []\<rparr>,
           Some (example_body\<lparr>ob_name := ''X_Solid''\<rparr>)],
        collections := [\<lparr>co_name = ''Characters'', co_objects = [1]\<rparr>]\<rparr>"

section \<open>The operators' guards and the update hook\<close>

text \<open>
  C5 (bake precondition). In every state whose preparation flag is false the bake
  operator is cancelled, reports exactly one error and returns the scene as it was: no
  working object, collection or setting is touched. With source collection and rig
  configured the error is the one about unprepared objects.
\<close>

theorem bake_precondition:
  assumes "\<not> is_objects_prepared (skin2solid_settings s)"
  shows "fst (bake_animation_execute s) = CANCELLED \<and>
         snd (snd (bake_animation_execute s)) = s \<and>
         (\<exists>msg. fst (snd (bake_animation_execute s)) = [(ERROR, msg)]) \<and>
         (collection_original_ref s \<noteq> None \<and> rig_ref s \<noteq> None \<longrightarrow>
            fst (snd (bake_animation_execute s)) =
              [(ERROR, ''Objects aren't prepared! Please run the 'Prepare Objects' operator first. '')])"
  using assms by (simp add: bake_animation_execute_def verify_operator_def)

theorem bake_precondition_witness:
  "\<not> is_objects_prepared (skin2solid_settings example_scene) \<and>
   fst (bake_animation_execute example_scene) = CANCELLED \<and>
   snd (snd (bake_animation_execute example_scene)) = example_scene \<and>
   fst (snd (bake_animation_execute example_scene)) =
     [(ERROR, ''Objects aren't prepared! Please run the 'Prepare Objects' operator first. '')]"
proof -
  have np: "\<not> is_objects_prepared (skin2solid_settings example_scene)"
    by (simp add: example_scene_def example_settings_def)
  have cfg: "collection_original_ref example_scene \<noteq> None \<and> rig_ref example_scene \<noteq> None"
    by (simp add: example_scene_def example_settings_def collection_original_ref_def
        rig_ref_def get_object_def)
  from bake_precondition [OF np] cfg np show ?thesis
    by blast
qed

text \<open>
  C6 (invalidation). Assigning the rig or the source collection stores the value and
  leaves the preparation flag false, whatever it was before.
\<close>

theorem invalidation:
  "\<not> is_objects_prepared (skin2solid_settings (assign_rig v s)) \<and>
   rig (skin2solid_settings (assign_rig v s)) = v \<and>
   \<not> is_objects_prepared (skin2solid_settings (assign_objs_collection_original w s)) \<and>
   objs_collection_original (skin2solid_settings (assign_objs_collection_original w s)) = w"
  by (simp add: assign_rig_def assign_objs_collection_original_def update_property_def)

theorem invalidation_witness:
  "is_objects_prepared (skin2solid_settings rest_scene) \<and>
   \<not> is_objects_prepared (skin2solid_settings (assign_rig (Some 2) rest_scene)) \<and>
   \<not> is_objects_prepared (skin2solid_settings (assign_objs_collection_original None rest_scene))"
proof -
  have "is_objects_prepared (skin2solid_settings rest_scene)"
    by (simp add: rest_scene_def example_settings_def)
  with invalidation [of "Some 2" rest_scene None] show ?thesis
    by blast
qed

section \<open>Pose position of the rig\<close>

lemma issue_simps [simp]:
  "objects (issue c s) = objects s"
  "collections (issue c s) = collections s"
  "armatures (issue c s) = armatures s"
  "skin2solid_settings (issue c s) = skin2solid_settings s"
  "active (issue c s) = active s"
  "calls (issue c s) = calls s @ [c]"
  by (simp_all add: issue_def)

lemma get_object_cong:
  "objects s' = objects s \<Longrightarrow> get_object s' i = get_object s i"
  by (simp add: get_object_def)

lemma rig_ref_cong:
  assumes "objects s' = objects s" and "skin2solid_settings s' = skin2solid_settings s"
  shows "rig_ref s' = rig_ref s"
  unfolding rig_ref_def get_object_def assms
  by (rule refl)

lemma rig_armature_cong:
  assumes "objects s' = objects s" and "skin2solid_settings s' = skin2solid_settings s"
    and "armatures s' = armatures s"
  shows "rig_armature s' = rig_armature s"
  unfolding rig_armature_def rig_ref_cong [OF assms(1,2)] get_object_cong [OF assms(1)] assms(3)
  by (rule refl)

lemma rig_armature_armatures_upd:
  assumes "rig_armature s = Inr (r, k, a)"
    and "objects s' = objects s"
    and "skin2solid_settings s' = skin2solid_settings s"
    and "armatures s' = (armatures s)(k \<mapsto> a')"
  shows "rig_armature s' = Inr (r, k, a')"
proof -
  from assms(1) obtain rig_obj where
    r: "rig_ref s = Some r" and o: "get_object s r = Some rig_obj"
    and d: "ob_data rig_obj = Armature_data k"
    by (auto simp: rig_armature_def split: option.splits object_data.splits)
  from r rig_ref_cong [OF assms(2,3)] have "rig_ref s' = Some r"
    by simp
  moreover from o get_object_cong [OF assms(2), of r] have "get_object s' r = Some rig_obj"
    by simp
  ultimately show ?thesis
    using d assms(4) by (simp add: rig_armature_def)
qed

text \<open>
  C9 (rest pose before binding), evaluated where it fails. The rig of \<open>skeleton_scene\<close>
  is an armature on the data-block \<open>Skeleton\<close>. \<^verbatim>\<open>set_rig_to_rest_pose\<close> succeeds, puts
  the data-block named \<open>Armature\<close> in rest position and leaves the rig's own data-block
  in pose position.
\<close>

theorem rest_pose_misses_rig:
  "map_option (\<lambda>s'. (map_option pose_position (armatures s' ''Skeleton''),
                      map_option pose_position (armatures s' ''Armature'')))
     (case set_rig_to_rest_pose 0 skeleton_scene of Inl e \<Rightarrow> None | Inr s' \<Rightarrow> Some s') =
   Some (Some POSE, Some REST) \<and>
   map_option fst (case rig_armature skeleton_scene of Inl e \<Rightarrow> None | Inr (r, k, a) \<Rightarrow> Some (k, a)) =
   Some ''Skeleton''"
  by (simp add: set_rig_to_rest_pose_def skeleton_scene_def example_scene_def example_settings_def
      get_object_def ob_type_def issue_def rig_armature_def rig_ref_def)

text \<open>
  C10 (pose position after binding). Whenever the binding step completes, the rig is an
  armature whose data-block is in pose position, whatever its position was before; the
  last operation issued is that write. The example is a run with an object active, as
  the operator calls of the step require, and with the rig in rest position before.
\<close>

theorem pose_after_binding:
  assumes "parent_objects_to_corresponding_bones s = Inr s'"
  shows "\<exists>r k a. rig_armature s' = Inr (r, k, a) \<and> pose_position a = POSE \<and>
           calls s' \<noteq> [] \<and> last (calls s') = Set_pose_position k POSE"
proof -
  from assms obtain c where c: "collection_created_ref s = Some c"
    by (cases "collection_created_ref s") (simp_all add: parent_objects_to_corresponding_bones_def)
  with assms obtain s1 where s1: "parent_each (co_objects (collections s ! c)) s = Inr s1"
    by (cases "parent_each (co_objects (collections s ! c)) s")
      (simp_all add: parent_objects_to_corresponding_bones_def)
  from assms c s1 obtain s2 where m2: "mode_set OBJECT_MODE s1 = Inr s2"
    by (cases "mode_set OBJECT_MODE s1") (simp_all add: parent_objects_to_corresponding_bones_def)
  from assms c s1 m2 obtain r k a where ra: "rig_armature s2 = Inr (r, k, a)"
    by (cases "rig_armature s2") (auto simp: parent_objects_to_corresponding_bones_def)
  from assms c s1 m2 ra
  have s': "s' = issue (Set_pose_position k POSE)
               (s2\<lparr>armatures := (armatures s2)(k \<mapsto> a\<lparr>pose_position := POSE\<rparr>)\<rparr>)"
    by (simp add: parent_objects_to_corresponding_bones_def)
  from s' have "rig_armature s' = Inr (r, k, a\<lparr>pose_position := POSE\<rparr>)"
    by (intro rig_armature_armatures_upd [OF ra]) simp_all
  moreover from s' have "calls s' \<noteq> [] \<and> last (calls s') = Set_pose_position k POSE"
    by simp
  ultimately show ?thesis
    by simp
qed

theorem pose_after_binding_witness:
  "active rest_scene = Some 1 \<and>
   map_option pose_position (armatures rest_scene ''Armature'') = Some REST \<and>
   \<not> isl (parent_objects_to_corresponding_bones rest_scene) \<and>
   map_option pose_position
     (armatures (projr (parent_objects_to_corresponding_bones rest_scene)) ''Armature'') = Some POSE"
proof -
  let ?s' = "projr (parent_objects_to_corresponding_bones rest_scene)"
  have before: "map_option pose_position (armatures rest_scene ''Armature'') = Some REST"
    by code_simp
  have run: "\<not> isl (parent_objects_to_corresponding_bones rest_scene)"
    by code_simp
  then have eq: "parent_objects_to_corresponding_bones rest_scene = Inr ?s'"
    by (cases "parent_objects_to_corresponding_bones rest_scene") simp_all
  from pose_after_binding [OF eq] obtain r k a where
    ra: "rig_armature ?s' = Inr (r, k, a)" and pa: "pose_position a = POSE"
    by blast
  have kk: "rig_armature ?s' = Inr (0, ''Armature'', the (armatures ?s' ''Armature''))"
    by code_simp
  from trans [OF ra [symmetric] kk]
  have "r = 0 \<and> k = ''Armature'' \<and> a = the (armatures ?s' ''Armature'')"
    by (simp only: sum.inject prod.inject)
  then have a: "a = the (armatures ?s' ''Armature'')"
    by blast
  have "armatures ?s' ''Armature'' \<noteq> None"
    by code_simp
  with a pa have "map_option pose_position (armatures ?s' ''Armature'') = Some POSE"
    by auto
  moreover have "active rest_scene = Some 1"
    by (simp add: rest_scene_def)
  ultimately show ?thesis
    using before run by blast
qed

section \<open>Facts about the host operations and the separation loop\<close>

lemma issue_orphan_meshes [simp]: "orphan_meshes (issue c s) = orphan_meshes s"
  by (simp add: issue_def)

lemma objects_link_simps [simp]:
  "objects (objects_link c i s) = objects s"
  "armatures (objects_link c i s) = armatures s"
  "orphan_meshes (objects_link c i s) = orphan_meshes s"
  "skin2solid_settings (objects_link c i s) = skin2solid_settings s"
  "active (objects_link c i s) = active s"
  "calls (objects_link c i s) = calls s @ [Objects_link c i]"
  "length (collections (objects_link c i s)) = length (collections s)"
  by (simp_all add: objects_link_def)

lemma collections_objects_link:
  "c < length (collections s) \<Longrightarrow>
   co_objects (collections (objects_link c i s) ! c) = co_objects (collections s ! c) @ [i]"
  by (simp add: objects_link_def)

lemma objects_unlink_simps:
  "objects (objects_unlink c i s) = objects s"
  "skin2solid_settings (objects_unlink c i s) = skin2solid_settings s"
  "armatures (objects_unlink c i s) = armatures s"
  "active (objects_unlink c i s) = active s"
  "length (collections (objects_unlink c i s)) = length (collections s)"
  "calls (objects_unlink c i s) = calls s @ [Objects_unlink c i]"
  by (simp_all add: objects_unlink_def)

lemma objects_unlink_linked:
  "c < length (collections s) \<Longrightarrow>
   co_objects (collections (objects_unlink c i s) ! c) = removeAll i (co_objects (collections s ! c))"
  by (simp add: objects_unlink_def)

lemma objects_remove_simps:
  "objects (objects_remove i s) = (objects s)[i := None]"
  "armatures (objects_remove i s) = armatures s"
  "length (collections (objects_remove i s)) = length (collections s)"
  "calls (objects_remove i s) = calls s @ [Objects_remove i]"
  "objs_collection_created (skin2solid_settings (objects_remove i s)) =
     objs_collection_created (skin2solid_settings s)"
  by (simp_all add: objects_remove_def)

lemma objects_remove_linked:
  "c < length (collections s) \<Longrightarrow>
   co_objects (collections (objects_remove i s) ! c) = removeAll i (co_objects (collections s ! c))"
  by (simp add: objects_remove_def)

lemma get_object_Some_less: "get_object s i = Some obj \<Longrightarrow> i < length (objects s)"
  by (simp add: get_object_def split: if_splits)

lemma collection_created_ref_Some:
  "collection_created_ref s = Some c \<longleftrightarrow>
     objs_collection_created (skin2solid_settings s) = Some c \<and> c < length (collections s)"
  by (auto simp: collection_created_ref_def split: option.splits if_splits)

lemma separate_group_simps:
  "skin2solid_settings (separate_group m mesh_obj c vgd kg s) = skin2solid_settings s"
  "armatures (separate_group m mesh_obj c vgd kg s) = armatures s"
  "active (separate_group m mesh_obj c vgd kg s) = active s"
  "length (collections (separate_group m mesh_obj c vgd kg s)) = length (collections s)"
  by (simp_all add: separate_group_def Let_def)

lemma separate_group_objects:
  "\<exists>nm me_nm. objects (separate_group m mesh_obj c vgd kg s) =
     objects s @ [Some (partition_duplicate mesh_obj vgd (fst kg) (snd kg)
                          (weight_threshold (skin2solid_settings s)) nm me_nm)]"
  unfolding separate_group_def Let_def
  by (intro exI) simp

lemma separate_group_linked:
  "c < length (collections s) \<Longrightarrow>
   co_objects (collections (separate_group m mesh_obj c vgd kg s) ! c) =
     co_objects (collections s ! c) @ [length (objects s)]"
  by (simp add: separate_group_def Let_def collections_objects_link)

lemma fold_separate_group:
  assumes "c < length (collections s)"
  shows "\<exists>news. objects (fold (separate_group m mesh_obj c vgd) kgs s) = objects s @ news \<and>
           list_all2 (\<lambda>new kg. \<exists>nm me_nm. new =
              Some (partition_duplicate mesh_obj vgd (fst kg) (snd kg)
                      (weight_threshold (skin2solid_settings s)) nm me_nm)) news kgs \<and>
           skin2solid_settings (fold (separate_group m mesh_obj c vgd) kgs s) = skin2solid_settings s \<and>
           length (collections (fold (separate_group m mesh_obj c vgd) kgs s)) = length (collections s) \<and>
           co_objects (collections (fold (separate_group m mesh_obj c vgd) kgs s) ! c) =
             co_objects (collections s ! c) @ [length (objects s) ..< length (objects s) + length kgs]"
  using assms
proof (induction kgs arbitrary: s)
  case Nil
  then show ?case by simp
next
  case (Cons kg kgs)
  let ?s1 = "separate_group m mesh_obj c vgd kg s"
  let ?t = "weight_threshold (skin2solid_settings s)"
  from separate_group_objects [of m mesh_obj c vgd kg s] obtain nm me_nm where
    o1: "objects ?s1 = objects s @ [Some (partition_duplicate mesh_obj vgd (fst kg) (snd kg) ?t nm me_nm)]"
    by blast
  have st1: "skin2solid_settings ?s1 = skin2solid_settings s"
    and len1: "length (collections ?s1) = length (collections s)"
    by (simp_all add: separate_group_simps)
  from Cons.prems len1 have c1: "c < length (collections ?s1)"
    by simp
  from Cons.prems have l1: "co_objects (collections ?s1 ! c) = co_objects (collections s ! c) @ [length (objects s)]"
    by (rule separate_group_linked)
  from Cons.IH [OF c1] obtain news where
    n: "objects (fold (separate_group m mesh_obj c vgd) kgs ?s1) = objects ?s1 @ news"
    and a: "list_all2 (\<lambda>new kg. \<exists>nm me_nm. new =
              Some (partition_duplicate mesh_obj vgd (fst kg) (snd kg)
                      (weight_threshold (skin2solid_settings ?s1)) nm me_nm)) news kgs"
    and st: "skin2solid_settings (fold (separate_group m mesh_obj c vgd) kgs ?s1) = skin2solid_settings ?s1"
    and len: "length (collections (fold (separate_group m mesh_obj c vgd) kgs ?s1)) = length (collections ?s1)"
    and l: "co_objects (collections (fold (separate_group m mesh_obj c vgd) kgs ?s1) ! c) =
             co_objects (collections ?s1 ! c) @ [length (objects ?s1) ..< length (objects ?s1) + length kgs]"
    by blast
  let ?news = "Some (partition_duplicate mesh_obj vgd (fst kg) (snd kg) ?t nm me_nm) # news"
  have up: "[length (objects s)..<Suc (length (objects s) + length kgs)] =
      length (objects s) # [Suc (length (objects s))..<Suc (length (objects s) + length kgs)]"
    by (rule upt_conv_Cons) simp
  from n o1 have "objects (fold (separate_group m mesh_obj c vgd) (kg # kgs) s) = objects s @ ?news"
    by simp
  moreover from a st1 have "list_all2 (\<lambda>new kg. \<exists>nm me_nm. new =
              Some (partition_duplicate mesh_obj vgd (fst kg) (snd kg) ?t nm me_nm)) ?news (kg # kgs)"
    by auto
  moreover from st st1 have "skin2solid_settings (fold (separate_group m mesh_obj c vgd) (kg # kgs) s) =
      skin2solid_settings s"
    by simp
  moreover from len len1 have "length (collections (fold (separate_group m mesh_obj c vgd) (kg # kgs) s)) =
      length (collections s)"
    by simp
  moreover from l l1 o1 up have "co_objects (collections (fold (separate_group m mesh_obj c vgd) (kg # kgs) s) ! c) =
      co_objects (collections s ! c) @ [length (objects s) ..< length (objects s) + length (kg # kgs)]"
    by simp
  ultimately show ?case
    by blast
qed
lemma filter_by_positions:
  "map (\<lambda>j. xs ! j) (filter (\<lambda>j. P (xs ! j)) [0..<length xs]) = filter P xs"
proof -
  have "filter P xs = filter P (map (\<lambda>j. xs ! j) [0..<length xs])"
    by (simp add: map_nth)
  also have "\<dots> = map (\<lambda>j. xs ! j) (filter (\<lambda>j. P (xs ! j)) [0..<length xs])"
    by (simp add: filter_map comp_def)
  finally show ?thesis
    by simp
qed

lemma partition_duplicate_kept:
  assumes "k < length (vertex_groups mesh_obj)" and "ob_type mesh_obj = MESH"
  shows "ob_type (partition_duplicate mesh_obj vgd k (vertex_groups mesh_obj ! k) t nm me_nm) = MESH"
    and "vertices (ob_mesh (partition_duplicate mesh_obj vgd k (vertex_groups mesh_obj ! k) t nm me_nm)) =
           map (\<lambda>j. keep_weights
                       (kept_positions (vg_name (vertex_groups mesh_obj ! k)) (vertex_groups mesh_obj))
                       (vertices (ob_mesh mesh_obj) ! j))
             (kept_indices (length (vertices (ob_mesh mesh_obj))) (to_delete vgd k t))"
    and "vertex_groups (partition_duplicate mesh_obj vgd k (vertex_groups mesh_obj ! k) t nm me_nm) =
           filter (\<lambda>vg. vg_name vg = vg_name (vertex_groups mesh_obj ! k)) (vertex_groups mesh_obj)"
proof -
  from assms(1) have inn: "vg_name (vertex_groups mesh_obj ! k) \<in> set (map vg_name (vertex_groups mesh_obj))"
    by simp
  show "ob_type (partition_duplicate mesh_obj vgd k (vertex_groups mesh_obj ! k) t nm me_nm) = MESH"
    using inn by (simp add: partition_duplicate_def Let_def ob_type_def)
  show "vertices (ob_mesh (partition_duplicate mesh_obj vgd k (vertex_groups mesh_obj ! k) t nm me_nm)) =
           map (\<lambda>j. keep_weights
                       (kept_positions (vg_name (vertex_groups mesh_obj ! k)) (vertex_groups mesh_obj))
                       (vertices (ob_mesh mesh_obj) ! j))
             (kept_indices (length (vertices (ob_mesh mesh_obj))) (to_delete vgd k t))"
    using inn by (simp add: partition_duplicate_def Let_def ob_mesh_def bmesh_delete_verts_def)
  show "vertex_groups (partition_duplicate mesh_obj vgd k (vertex_groups mesh_obj ! k) t nm me_nm) =
           filter (\<lambda>vg. vg_name vg = vg_name (vertex_groups mesh_obj ! k)) (vertex_groups mesh_obj)"
    using inn
    by (simp add: partition_duplicate_def Let_def kept_positions_def
        filter_by_positions [of "vertex_groups mesh_obj" "\<lambda>vg. vg_name vg = vg_name (vertex_groups mesh_obj ! k)"])
qed

lemma separate_mesh_by_vertex_groups_result:
  assumes "get_object s m = Some mesh_obj" and "ob_type mesh_obj = MESH"
    and "collection_created_ref s = Some c" and "m \<in> set (co_objects (collections s ! c))"
  shows "\<exists>s'. separate_mesh_by_vertex_groups m s = Inr s' \<and>
           collection_created_ref s' = Some c \<and>
           (\<forall>k < length (vertex_groups mesh_obj).
              length (objects s) + k \<in> set (co_objects (collections s' ! c)) \<and>
              (\<exists>nm me_nm. get_object s' (length (objects s) + k) =
                 Some (partition_duplicate mesh_obj (vertex_group_data (vertices (ob_mesh mesh_obj)))
                         k (vertex_groups mesh_obj ! k)
                         (weight_threshold (skin2solid_settings s)) nm me_nm)))"
proof -
  let ?vgd = "vertex_group_data (vertices (ob_mesh mesh_obj))"
  let ?gs = "vertex_groups mesh_obj"
  let ?kgs = "zip [0..<length ?gs] ?gs"
  let ?t = "weight_threshold (skin2solid_settings s)"
  let ?s1 = "fold (separate_group m mesh_obj c ?vgd) ?kgs s"
  let ?s' = "objects_remove m (objects_unlink c m ?s1)"
  from assms(3) have c: "c < length (collections s)"
    and cr: "objs_collection_created (skin2solid_settings s) = Some c"
    by (simp_all add: collection_created_ref_Some)
  from fold_separate_group [OF c, of m mesh_obj ?vgd ?kgs] obtain news where
    o1: "objects ?s1 = objects s @ news"
    and a: "list_all2 (\<lambda>new kg. \<exists>nm me_nm. new =
              Some (partition_duplicate mesh_obj ?vgd (fst kg) (snd kg) ?t nm me_nm)) news ?kgs"
    and st: "skin2solid_settings ?s1 = skin2solid_settings s"
    and len: "length (collections ?s1) = length (collections s)"
    and l: "co_objects (collections ?s1 ! c) =
             co_objects (collections s ! c) @ [length (objects s) ..< length (objects s) + length ?kgs]"
    by blast
  from assms(1) have m: "m < length (objects s)"
    by (rule get_object_Some_less)
  from l assms(4) have "m \<in> set (co_objects (collections ?s1 ! c))"
    by simp
  with assms(1-3) have run: "separate_mesh_by_vertex_groups m s = Inr ?s'"
    by (simp add: separate_mesh_by_vertex_groups_def Let_def)
  from c len have c1: "c < length (collections ?s1)"
    by simp
  from c1 cr st have ref: "collection_created_ref ?s' = Some c"
    by (simp add: collection_created_ref_Some objects_remove_simps objects_unlink_simps)
  have each: "length (objects s) + k \<in> set (co_objects (collections ?s' ! c)) \<and>
      (\<exists>nm me_nm. get_object ?s' (length (objects s) + k) =
         Some (partition_duplicate mesh_obj ?vgd k (?gs ! k) ?t nm me_nm))"
    if k: "k < length ?gs" for k
  proof
    from m have dm: "length (objects s) + k \<noteq> m"
      by simp
    have c2: "c < length (collections (objects_unlink c m ?s1))"
      using c1 by (simp add: objects_unlink_simps)
    have "co_objects (collections ?s' ! c) = removeAll m (removeAll m (co_objects (collections ?s1 ! c)))"
      using objects_remove_linked [OF c2] objects_unlink_linked [OF c1] by simp
    with l k dm show "length (objects s) + k \<in> set (co_objects (collections ?s' ! c))"
      by simp
    from a have la: "length news = length ?kgs"
      by (rule list_all2_lengthD)
    with k have kn: "k < length news"
      by simp
    from a kn have "\<exists>nm me_nm. news ! k =
        Some (partition_duplicate mesh_obj ?vgd (fst (?kgs ! k)) (snd (?kgs ! k)) ?t nm me_nm)"
      by (rule list_all2_nthD)
    with k obtain nm me_nm where
      nk: "news ! k = Some (partition_duplicate mesh_obj ?vgd k (?gs ! k) ?t nm me_nm)"
      by auto
    have "objects ?s' = (objects s @ news)[m := None]"
      using o1 by (simp add: objects_remove_simps objects_unlink_simps)
    with kn dm nk have "get_object ?s' (length (objects s) + k) =
        Some (partition_duplicate mesh_obj ?vgd k (?gs ! k) ?t nm me_nm)"
      by (simp add: get_object_def nth_append)
    then show "\<exists>nm me_nm. get_object ?s' (length (objects s) + k) =
         Some (partition_duplicate mesh_obj ?vgd k (?gs ! k) ?t nm me_nm)"
      by blast
  qed
  from run ref each show ?thesis
    by blast
qed
section \<open>Properties of the vertex selection\<close>

lemma below_threshold_iff:
  "below_threshold gi t gs \<longleftrightarrow> (\<exists>w. (gi, w) \<in> set gs \<and> w < t)"
  by (induction gs) auto

lemma set_to_delete:
  "set (to_delete vgd gi t) =
     {i. i < length vgd \<and>
         ((\<forall>w. (gi, w) \<notin> set (vgd ! i)) \<or> (\<exists>w. (gi, w) \<in> set (vgd ! i) \<and> w < t))}"
  by (auto simp: to_delete_def marks_for_vertex_def below_threshold_iff filter_empty_conv
      split: if_splits)

lemma kept_indices_iff:
  "i \<in> set (kept_indices (length verts) (to_delete (vertex_group_data verts) gi t)) \<longleftrightarrow>
     i < length verts \<and> (\<exists>w. (gi, w) \<in> set (vertex_group_data verts ! i)) \<and>
     (\<forall>w. (gi, w) \<in> set (vertex_group_data verts ! i) \<longrightarrow> t \<le> w)"
  by (auto simp: kept_indices_def set_to_delete vertex_group_data_def not_less)

lemma table_entry_unique:
  assumes "i < length verts"
    and "distinct (map group (groups (verts ! i)))"
    and "(gi, w) \<in> set (vertex_group_data verts ! i)"
    and "(gi, w') \<in> set (vertex_group_data verts ! i)"
  shows "w = w'"
proof -
  from assms(1,3) obtain e where e: "e \<in> set (groups (verts ! i))" "group e = gi" "weight e = w"
    by (auto simp: vertex_group_data_def)
  from assms(1,4) obtain e' where e': "e' \<in> set (groups (verts ! i))" "group e' = gi" "weight e' = w'"
    by (auto simp: vertex_group_data_def)
  from assms(2) have "inj_on group (set (groups (verts ! i)))"
    by (simp add: distinct_map)
  with e e' have "e = e'"
    by (auto dest: inj_onD)
  with e e' show ?thesis by simp
qed

lemma kept_indices_iff_unique:
  assumes "i < length verts" and "distinct (map group (groups (verts ! i)))"
  shows "i \<in> set (kept_indices (length verts) (to_delete (vertex_group_data verts) gi t)) \<longleftrightarrow>
           (\<exists>w. (gi, w) \<in> set (vertex_group_data verts ! i) \<and> t \<le> w)"
  using assms(1) table_entry_unique [OF assms]
  by (auto simp: kept_indices_iff)

lemma kept_indices_none:
  assumes "\<forall>i < length verts. \<forall>w. (gi, w) \<in> set (vertex_group_data verts ! i) \<longrightarrow> w < t"
  shows "kept_indices (length verts) (to_delete (vertex_group_data verts) gi t) = []"
proof -
  have "i \<notin> set (kept_indices (length verts) (to_delete (vertex_group_data verts) gi t))" for i
  proof
    assume "i \<in> set (kept_indices (length verts) (to_delete (vertex_group_data verts) gi t))"
    then obtain w where i: "i < length verts" and w: "(gi, w) \<in> set (vertex_group_data verts ! i)"
      and all: "\<forall>w. (gi, w) \<in> set (vertex_group_data verts ! i) \<longrightarrow> t \<le> w"
      unfolding kept_indices_iff by blast
    from assms i w have "w < t"
      by blast
    moreover from all w have "t \<le> w"
      by blast
    ultimately show False
      by simp
  qed
  then show ?thesis
    by (cases "kept_indices (length verts) (to_delete (vertex_group_data verts) gi t)") auto
qed

text \<open>
  C4 (empty partitions). For a mesh object of the working collection, separation
  succeeds and makes one object for every vertex group of the object, the \<open>k\<close>-th
  group's object being the \<open>k\<close>-th new one: it exists afterwards, is a mesh object
  linked in the working collection, keeps the vertex groups named like the group, and
  its geometry is exactly the vertices left by the deletion for the group. Nothing
  depends on any vertex being left: when no vertex has a weight for the group that
  reaches the threshold, the object is there with a mesh of no vertices.
\<close>

theorem empty_partitions_kept:
  assumes "get_object s m = Some mesh_obj" and "ob_type mesh_obj = MESH"
    and "collection_created_ref s = Some c" and "m \<in> set (co_objects (collections s ! c))"
    and "k < length (vertex_groups mesh_obj)"
  shows "\<exists>s' dup. separate_mesh_by_vertex_groups m s = Inr s' \<and>
           collection_created_ref s' = Some c \<and>
           length (objects s) + k \<in> set (co_objects (collections s' ! c)) \<and>
           get_object s' (length (objects s) + k) = Some dup \<and>
           ob_type dup = MESH \<and>
           vertex_groups dup =
             filter (\<lambda>vg. vg_name vg = vg_name (vertex_groups mesh_obj ! k)) (vertex_groups mesh_obj) \<and>
           vertices (ob_mesh dup) =
             map (\<lambda>j. keep_weights
                         (kept_positions (vg_name (vertex_groups mesh_obj ! k)) (vertex_groups mesh_obj))
                         (vertices (ob_mesh mesh_obj) ! j))
               (kept_indices (length (vertices (ob_mesh mesh_obj)))
                  (to_delete (vertex_group_data (vertices (ob_mesh mesh_obj))) k
                     (weight_threshold (skin2solid_settings s)))) \<and>
           ((\<forall>i < length (vertices (ob_mesh mesh_obj)).
               \<forall>w. (k, w) \<in> set (vertex_group_data (vertices (ob_mesh mesh_obj)) ! i) \<longrightarrow>
                     w < weight_threshold (skin2solid_settings s)) \<longrightarrow>
            vertices (ob_mesh dup) = [])"
proof -
  let ?verts = "vertices (ob_mesh mesh_obj)"
  let ?vgd = "vertex_group_data ?verts"
  let ?t = "weight_threshold (skin2solid_settings s)"
  from separate_mesh_by_vertex_groups_result [OF assms(1-4)] assms(5)
  obtain s' nm me_nm where run: "separate_mesh_by_vertex_groups m s = Inr s'"
    and ref: "collection_created_ref s' = Some c"
    and linked: "length (objects s) + k \<in> set (co_objects (collections s' ! c))"
    and obj: "get_object s' (length (objects s) + k) =
        Some (partition_duplicate mesh_obj ?vgd k (vertex_groups mesh_obj ! k) ?t nm me_nm)"
    by blast
  let ?dup = "partition_duplicate mesh_obj ?vgd k (vertex_groups mesh_obj ! k) ?t nm me_nm"
  note pd = partition_duplicate_kept [OF assms(5) assms(2), of ?vgd ?t nm me_nm]
  have empty: "vertices (ob_mesh ?dup) = []"
    if "\<forall>i < length ?verts. \<forall>w. (k, w) \<in> set (?vgd ! i) \<longrightarrow> w < ?t"
    using pd(2) kept_indices_none [OF that] by simp
  from run ref linked obj pd empty show ?thesis
    by blast
qed

theorem empty_partitions_kept_witness:
  "\<not> isl (separate_mesh_by_vertex_groups 1 three_group_scene) \<and>
   4 \<in> set (co_objects (collections (projr (separate_mesh_by_vertex_groups 1 three_group_scene)) ! 0)) \<and>
   map_option vertex_groups (get_object (projr (separate_mesh_by_vertex_groups 1 three_group_scene)) 4) =
     Some [\<lparr>vg_name = ''C''\<rparr>] \<and>
   map_option (\<lambda>obj. vertices (ob_mesh obj))
     (get_object (projr (separate_mesh_by_vertex_groups 1 three_group_scene)) 4) = Some []"
proof -
  let ?body = "example_body
     \<lparr>vertex_groups := [\<lparr>vg_name = ''A''\<rparr>, \<lparr>vg_name = ''B''\<rparr>, \<lparr>vg_name = ''C''\<rparr>]\<rparr>"
  have h1: "get_object three_group_scene 1 = Some ?body"
    by (simp add: three_group_scene_def get_object_def)
  have h2: "ob_type ?body = MESH"
    by (simp add: ob_type_def example_body_def)
  have h3: "collection_created_ref three_group_scene = Some 0"
    by (simp add: three_group_scene_def example_scene_def example_settings_def
        collection_created_ref_def)
  have h4: "1 \<in> set (co_objects (collections three_group_scene ! 0))"
    by (simp add: three_group_scene_def)
  have h5: "2 < length (vertex_groups ?body)"
    by simp
  have len: "length (objects three_group_scene) + 2 = 4"
    by (simp add: three_group_scene_def)
  have none: "\<forall>i < length (vertices (ob_mesh ?body)).
      \<forall>w. (2, w) \<in> set (vertex_group_data (vertices (ob_mesh ?body)) ! i) \<longrightarrow>
            w < weight_threshold (skin2solid_settings three_group_scene)"
    by (simp add: ob_mesh_def example_body_def example_verts_def vertex_group_data_def
        less_Suc_eq all_conj_distrib)
  from empty_partitions_kept [OF h1 h2 h3 h4 h5] obtain s' dup where
    run: "separate_mesh_by_vertex_groups 1 three_group_scene = Inr s'"
    and linked: "length (objects three_group_scene) + 2 \<in> set (co_objects (collections s' ! 0))"
    and obj: "get_object s' (length (objects three_group_scene) + 2) = Some dup"
    and grps: "vertex_groups dup =
        filter (\<lambda>vg. vg_name vg = vg_name (vertex_groups ?body ! 2)) (vertex_groups ?body)"
    and verts: "(\<forall>i < length (vertices (ob_mesh ?body)).
        \<forall>w. (2, w) \<in> set (vertex_group_data (vertices (ob_mesh ?body)) ! i) \<longrightarrow>
              w < weight_threshold (skin2solid_settings three_group_scene)) \<longrightarrow>
        vertices (ob_mesh dup) = []"
    by blast
  from verts none have verts': "vertices (ob_mesh dup) = []"
    by blast
  from grps have grps': "vertex_groups dup = [\<lparr>vg_name = ''C''\<rparr>]"
    by simp
  from run have s': "projr (separate_mesh_by_vertex_groups 1 three_group_scene) = s'"
    and ok: "\<not> isl (separate_mesh_by_vertex_groups 1 three_group_scene)"
    by simp_all
  from linked obj grps' verts' ok show ?thesis
    unfolding s' len by simp
qed
text \<open>
  C1 (partition completeness). In the host a vertex carries at most one weight per
  vertex group. Separation of a mesh object of the working collection makes for its
  \<open>k\<close>-th vertex group an object whose mesh holds exactly the source vertices left
  by the deletion, in their order and with the weights of the kept group only. For a
  vertex \<open>i\<close> of the source mesh with at most one weight per group, \<open>i\<close> is among
  them exactly when the weight table captured from the original mesh has an entry
  \<open>(k, w)\<close> for it with \<open>w\<close> at least the threshold; and a vertex all of whose
  entries are below the threshold is left in the mesh made for no group.
\<close>

theorem partition_completeness:
  assumes "get_object s m = Some mesh_obj" and "ob_type mesh_obj = MESH"
    and "collection_created_ref s = Some c" and "m \<in> set (co_objects (collections s ! c))"
    and "k < length (vertex_groups mesh_obj)"
    and "i < length (vertices (ob_mesh mesh_obj))"
    and "distinct (map group (groups (vertices (ob_mesh mesh_obj) ! i)))"
  shows "\<exists>s' dup. separate_mesh_by_vertex_groups m s = Inr s' \<and>
           get_object s' (length (objects s) + k) = Some dup \<and>
           vertices (ob_mesh dup) =
             map (\<lambda>j. keep_weights
                         (kept_positions (vg_name (vertex_groups mesh_obj ! k)) (vertex_groups mesh_obj))
                         (vertices (ob_mesh mesh_obj) ! j))
               (kept_indices (length (vertices (ob_mesh mesh_obj)))
                  (to_delete (vertex_group_data (vertices (ob_mesh mesh_obj))) k
                     (weight_threshold (skin2solid_settings s)))) \<and>
           (i \<in> set (kept_indices (length (vertices (ob_mesh mesh_obj)))
                       (to_delete (vertex_group_data (vertices (ob_mesh mesh_obj))) k
                          (weight_threshold (skin2solid_settings s)))) \<longleftrightarrow>
              (\<exists>w. (k, w) \<in> set (vertex_group_data (vertices (ob_mesh mesh_obj)) ! i) \<and>
                    weight_threshold (skin2solid_settings s) \<le> w)) \<and>
           ((\<forall>e \<in> set (vertex_group_data (vertices (ob_mesh mesh_obj)) ! i).
               snd e < weight_threshold (skin2solid_settings s)) \<longrightarrow>
            (\<forall>g. i \<notin> set (kept_indices (length (vertices (ob_mesh mesh_obj)))
                             (to_delete (vertex_group_data (vertices (ob_mesh mesh_obj))) g
                                (weight_threshold (skin2solid_settings s))))))"
proof -
  let ?verts = "vertices (ob_mesh mesh_obj)"
  let ?vgd = "vertex_group_data ?verts"
  let ?t = "weight_threshold (skin2solid_settings s)"
  from separate_mesh_by_vertex_groups_result [OF assms(1-4)] assms(5)
  obtain s' nm me_nm where run: "separate_mesh_by_vertex_groups m s = Inr s'"
    and obj: "get_object s' (length (objects s) + k) =
        Some (partition_duplicate mesh_obj ?vgd k (vertex_groups mesh_obj ! k) ?t nm me_nm)"
    by blast
  note pd = partition_duplicate_kept(2) [OF assms(5) assms(2), of ?vgd ?t nm me_nm]
  have iff: "i \<in> set (kept_indices (length ?verts) (to_delete ?vgd k ?t)) \<longleftrightarrow>
      (\<exists>w. (k, w) \<in> set (?vgd ! i) \<and> ?t \<le> w)"
    by (rule kept_indices_iff_unique [OF assms(6,7)])
  have none: "(\<forall>e \<in> set (?vgd ! i). snd e < ?t) \<longrightarrow>
      (\<forall>g. i \<notin> set (kept_indices (length ?verts) (to_delete ?vgd g ?t)))"
    by (fastforce simp: kept_indices_iff)
  from run obj pd iff none show ?thesis
    by blast
qed

theorem partition_completeness_witness:
  "\<not> isl (separate_mesh_by_vertex_groups 1 three_group_scene) \<and>
   kept_indices 4 (to_delete (vertex_group_data example_verts) 0 0.3) = [0] \<and>
   kept_indices 4 (to_delete (vertex_group_data example_verts) 1 0.3) = [2] \<and>
   kept_indices 4 (to_delete (vertex_group_data example_verts) 2 0.3) = [] \<and>
   map_option (\<lambda>obj. vertices (ob_mesh obj))
     (get_object (projr (separate_mesh_by_vertex_groups 1 three_group_scene)) 2) =
     Some [\<lparr>groups = [\<lparr>group = 0, weight = 0.9\<rparr>]\<rparr>]"
proof -
  let ?body = "example_body
     \<lparr>vertex_groups := [\<lparr>vg_name = ''A''\<rparr>, \<lparr>vg_name = ''B''\<rparr>, \<lparr>vg_name = ''C''\<rparr>]\<rparr>"
  have h1: "get_object three_group_scene 1 = Some ?body"
    by (simp add: three_group_scene_def get_object_def)
  have h2: "ob_type ?body = MESH"
    by (simp add: ob_type_def example_body_def)
  have h3: "collection_created_ref three_group_scene = Some 0"
    by (simp add: three_group_scene_def example_scene_def example_settings_def
        collection_created_ref_def)
  have h4: "1 \<in> set (co_objects (collections three_group_scene ! 0))"
    by (simp add: three_group_scene_def)
  have h5: "0 < length (vertex_groups ?body)"
    by simp
  have vs: "vertices (ob_mesh ?body) = example_verts"
    and th: "weight_threshold (skin2solid_settings three_group_scene) = 0.3"
    by (simp_all add: ob_mesh_def example_body_def three_group_scene_def example_settings_def)
  have h6: "0 < length (vertices (ob_mesh ?body))"
    unfolding vs by (simp add: example_verts_def)
  have h7: "distinct (map group (groups (vertices (ob_mesh ?body) ! 0)))"
    unfolding vs by (simp add: example_verts_def)
  have len: "length (objects three_group_scene) + 0 = 2"
    by (simp add: three_group_scene_def)
  have k0: "kept_indices 4 (to_delete (vertex_group_data example_verts) 0 0.3) = [0]"
    by code_simp
  have k1: "kept_indices 4 (to_delete (vertex_group_data example_verts) 1 0.3) = [2]"
    by code_simp
  have k2: "kept_indices 4 (to_delete (vertex_group_data example_verts) 2 0.3) = []"
    by code_simp
  have l4: "length example_verts = 4"
    by (simp add: example_verts_def)
  have kw: "keep_weights (kept_positions ''A'' (vertex_groups ?body)) (example_verts ! 0) =
      \<lparr>groups = [\<lparr>group = 0, weight = 0.9\<rparr>]\<rparr>"
    by code_simp
  from partition_completeness [OF h1 h2 h3 h4 h5 h6 h7] obtain s' dup where
    run: "separate_mesh_by_vertex_groups 1 three_group_scene = Inr s'"
    and obj: "get_object s' (length (objects three_group_scene) + 0) = Some dup"
    and verts: "vertices (ob_mesh dup) =
        map (\<lambda>j. keep_weights (kept_positions (vg_name (vertex_groups ?body ! 0)) (vertex_groups ?body))
                    (vertices (ob_mesh ?body) ! j))
          (kept_indices (length (vertices (ob_mesh ?body)))
             (to_delete (vertex_group_data (vertices (ob_mesh ?body))) 0
                (weight_threshold (skin2solid_settings three_group_scene))))"
    by blast
  have g0: "vg_name (vertex_groups ?body ! 0) = ''A''"
    by simp
  from verts have verts': "vertices (ob_mesh dup) = [\<lparr>groups = [\<lparr>group = 0, weight = 0.9\<rparr>]\<rparr>]"
    unfolding vs th l4 k0 g0 using kw by simp
  from run have s': "projr (separate_mesh_by_vertex_groups 1 three_group_scene) = s'"
    and ok: "\<not> isl (separate_mesh_by_vertex_groups 1 three_group_scene)"
    by simp_all
  from obj verts' ok k0 k1 k2 show ?thesis
    unfolding s' len by simp
qed

text \<open>
  C2 (partition disjointness) fails as stated: the mesh of each group is filtered on
  that group's weight alone. On a mesh whose vertex 0 has weight 0.5 for both groups,
  separated at threshold 0.3, vertex 0 is left in the mesh made for group 0 and in the
  mesh made for group 1.
\<close>

theorem partition_disjointness_counterexample:
  "\<not> isl (separate_mesh_by_vertex_groups 1 shared_scene) \<and>
   kept_indices 2 (to_delete (vertex_group_data shared_verts) 0 0.3) = [0, 1] \<and>
   kept_indices 2 (to_delete (vertex_group_data shared_verts) 1 0.3) = [0] \<and>
   map_option (\<lambda>obj. vertices (ob_mesh obj))
     (get_object (projr (separate_mesh_by_vertex_groups 1 shared_scene)) 2) =
     Some [\<lparr>groups = [\<lparr>group = 0, weight = 0.5\<rparr>]\<rparr>, \<lparr>groups = [\<lparr>group = 0, weight = 1.0\<rparr>]\<rparr>] \<and>
   map_option (\<lambda>obj. vertices (ob_mesh obj))
     (get_object (projr (separate_mesh_by_vertex_groups 1 shared_scene)) 3) =
     Some [\<lparr>groups = [\<lparr>group = 0, weight = 0.5\<rparr>]\<rparr>]"
  by code_simp
text \<open>
  C2, amended. In the host a vertex carries at most one weight per vertex group. For
  such a mesh, separation makes for two different groups \<open>k1\<close> and \<open>k2\<close> two
  objects whose meshes hold the source vertices left by the deletion for the one and
  for the other group, and the source vertices in both meshes are exactly those whose
  weights for \<open>k1\<close> and for \<open>k2\<close> both reach the threshold. So the two meshes share
  no vertex of the source mesh exactly when no vertex has both weights at or above the
  threshold.
\<close>

theorem partition_disjointness_amended:
  assumes "get_object s m = Some mesh_obj" and "ob_type mesh_obj = MESH"
    and "collection_created_ref s = Some c" and "m \<in> set (co_objects (collections s ! c))"
    and "k1 < length (vertex_groups mesh_obj)" and "k2 < length (vertex_groups mesh_obj)"
    and "k1 \<noteq> k2"
    and "\<forall>v \<in> set (vertices (ob_mesh mesh_obj)). distinct (map group (groups v))"
  shows "\<exists>s' dup1 dup2. separate_mesh_by_vertex_groups m s = Inr s' \<and>
           get_object s' (length (objects s) + k1) = Some dup1 \<and>
           get_object s' (length (objects s) + k2) = Some dup2 \<and>
           vertices (ob_mesh dup1) =
             map (\<lambda>j. keep_weights
                         (kept_positions (vg_name (vertex_groups mesh_obj ! k1)) (vertex_groups mesh_obj))
                         (vertices (ob_mesh mesh_obj) ! j))
               (kept_indices (length (vertices (ob_mesh mesh_obj)))
                  (to_delete (vertex_group_data (vertices (ob_mesh mesh_obj))) k1
                     (weight_threshold (skin2solid_settings s)))) \<and>
           vertices (ob_mesh dup2) =
             map (\<lambda>j. keep_weights
                         (kept_positions (vg_name (vertex_groups mesh_obj ! k2)) (vertex_groups mesh_obj))
                         (vertices (ob_mesh mesh_obj) ! j))
               (kept_indices (length (vertices (ob_mesh mesh_obj)))
                  (to_delete (vertex_group_data (vertices (ob_mesh mesh_obj))) k2
                     (weight_threshold (skin2solid_settings s)))) \<and>
           set (kept_indices (length (vertices (ob_mesh mesh_obj)))
                  (to_delete (vertex_group_data (vertices (ob_mesh mesh_obj))) k1
                     (weight_threshold (skin2solid_settings s)))) \<inter>
           set (kept_indices (length (vertices (ob_mesh mesh_obj)))
                  (to_delete (vertex_group_data (vertices (ob_mesh mesh_obj))) k2
                     (weight_threshold (skin2solid_settings s)))) =
             {i. i < length (vertices (ob_mesh mesh_obj)) \<and>
                 (\<exists>w1 w2. (k1, w1) \<in> set (vertex_group_data (vertices (ob_mesh mesh_obj)) ! i) \<and>
                           (k2, w2) \<in> set (vertex_group_data (vertices (ob_mesh mesh_obj)) ! i) \<and>
                           weight_threshold (skin2solid_settings s) \<le> w1 \<and>
                           weight_threshold (skin2solid_settings s) \<le> w2)}"
proof -
  let ?verts = "vertices (ob_mesh mesh_obj)"
  let ?vgd = "vertex_group_data ?verts"
  let ?t = "weight_threshold (skin2solid_settings s)"
  from separate_mesh_by_vertex_groups_result [OF assms(1-4)] assms(5,6)
  obtain s' nm1 me_nm1 nm2 me_nm2 where run: "separate_mesh_by_vertex_groups m s = Inr s'"
    and obj1: "get_object s' (length (objects s) + k1) =
        Some (partition_duplicate mesh_obj ?vgd k1 (vertex_groups mesh_obj ! k1) ?t nm1 me_nm1)"
    and obj2: "get_object s' (length (objects s) + k2) =
        Some (partition_duplicate mesh_obj ?vgd k2 (vertex_groups mesh_obj ! k2) ?t nm2 me_nm2)"
    by blast
  note pd1 = partition_duplicate_kept(2) [OF assms(5) assms(2), of ?vgd ?t nm1 me_nm1]
  note pd2 = partition_duplicate_kept(2) [OF assms(6) assms(2), of ?vgd ?t nm2 me_nm2]
  have iff: "i \<in> set (kept_indices (length ?verts) (to_delete ?vgd g ?t)) \<longleftrightarrow>
      i < length ?verts \<and> (\<exists>w. (g, w) \<in> set (?vgd ! i) \<and> ?t \<le> w)" for i g
  proof (cases "i < length ?verts")
    case True
    with assms(8) have "distinct (map group (groups (?verts ! i)))"
      by simp
    from kept_indices_iff_unique [OF True this] True show ?thesis
      by simp
  next
    case False
    then show ?thesis
      by (simp add: kept_indices_iff)
  qed
  have inter: "set (kept_indices (length ?verts) (to_delete ?vgd k1 ?t)) \<inter>
      set (kept_indices (length ?verts) (to_delete ?vgd k2 ?t)) =
      {i. i < length ?verts \<and>
          (\<exists>w1 w2. (k1, w1) \<in> set (?vgd ! i) \<and> (k2, w2) \<in> set (?vgd ! i) \<and> ?t \<le> w1 \<and> ?t \<le> w2)}"
    unfolding set_eq_iff Int_iff iff mem_Collect_eq by blast
  from run obj1 obj2 pd1 pd2 inter show ?thesis
    by blast
qed
theorem partition_disjointness_amended_witness:
  "\<not> isl (separate_mesh_by_vertex_groups 1 three_group_scene) \<and>
   map_option (\<lambda>obj. vertices (ob_mesh obj))
     (get_object (projr (separate_mesh_by_vertex_groups 1 three_group_scene)) 2) =
     Some [\<lparr>groups = [\<lparr>group = 0, weight = 0.9\<rparr>]\<rparr>] \<and>
   map_option (\<lambda>obj. vertices (ob_mesh obj))
     (get_object (projr (separate_mesh_by_vertex_groups 1 three_group_scene)) 3) =
     Some [\<lparr>groups = [\<lparr>group = 0, weight = 1.0\<rparr>]\<rparr>] \<and>
   {i. i < length example_verts \<and>
       (\<exists>w1 w2. (0, w1) \<in> set (vertex_group_data example_verts ! i) \<and>
                 (1, w2) \<in> set (vertex_group_data example_verts ! i) \<and>
                 0.3 \<le> w1 \<and> 0.3 \<le> w2)} = {}"
proof -
  let ?body = "example_body
     \<lparr>vertex_groups := [\<lparr>vg_name = ''A''\<rparr>, \<lparr>vg_name = ''B''\<rparr>, \<lparr>vg_name = ''C''\<rparr>]\<rparr>"
  have h1: "get_object three_group_scene 1 = Some ?body"
    by (simp add: three_group_scene_def get_object_def)
  have h2: "ob_type ?body = MESH"
    by (simp add: ob_type_def example_body_def)
  have h3: "collection_created_ref three_group_scene = Some 0"
    by (simp add: three_group_scene_def example_scene_def example_settings_def
        collection_created_ref_def)
  have h4: "1 \<in> set (co_objects (collections three_group_scene ! 0))"
    by (simp add: three_group_scene_def)
  have h5: "0 < length (vertex_groups ?body)" and h6: "1 < length (vertex_groups ?body)"
    by simp_all
  have h7: "(0::nat) \<noteq> 1"
    by simp
  have vs: "vertices (ob_mesh ?body) = example_verts"
    and th: "weight_threshold (skin2solid_settings three_group_scene) = 0.3"
    by (simp_all add: ob_mesh_def example_body_def three_group_scene_def example_settings_def)
  have h8: "\<forall>v \<in> set (vertices (ob_mesh ?body)). distinct (map group (groups v))"
    unfolding vs by (simp add: example_verts_def)
  have len: "length (objects three_group_scene) + 0 = 2" "length (objects three_group_scene) + 1 = 3"
    by (simp_all add: three_group_scene_def)
  have k0: "kept_indices 4 (to_delete (vertex_group_data example_verts) 0 0.3) = [0]"
    by code_simp
  have k1: "kept_indices 4 (to_delete (vertex_group_data example_verts) 1 0.3) = [2]"
    by code_simp
  have l4: "length example_verts = 4"
    by (simp add: example_verts_def)
  have kw0: "keep_weights (kept_positions ''A'' (vertex_groups ?body)) (example_verts ! 0) =
      \<lparr>groups = [\<lparr>group = 0, weight = 0.9\<rparr>]\<rparr>"
    by code_simp
  have kw1: "keep_weights (kept_positions ''B'' (vertex_groups ?body)) (example_verts ! 2) =
      \<lparr>groups = [\<lparr>group = 0, weight = 1.0\<rparr>]\<rparr>"
    by code_simp
  have g: "vg_name (vertex_groups ?body ! 0) = ''A''" "vg_name (vertex_groups ?body ! 1) = ''B''"
    by simp_all
  from partition_disjointness_amended [OF h1 h2 h3 h4 h5 h6 h7 h8] obtain s' dup1 dup2 where
    run: "separate_mesh_by_vertex_groups 1 three_group_scene = Inr s'"
    and obj1: "get_object s' (length (objects three_group_scene) + 0) = Some dup1"
    and obj2: "get_object s' (length (objects three_group_scene) + 1) = Some dup2"
    and verts1: "vertices (ob_mesh dup1) =
        map (\<lambda>j. keep_weights (kept_positions (vg_name (vertex_groups ?body ! 0)) (vertex_groups ?body))
                    (vertices (ob_mesh ?body) ! j))
          (kept_indices (length (vertices (ob_mesh ?body)))
             (to_delete (vertex_group_data (vertices (ob_mesh ?body))) 0
                (weight_threshold (skin2solid_settings three_group_scene))))"
    and verts2: "vertices (ob_mesh dup2) =
        map (\<lambda>j. keep_weights (kept_positions (vg_name (vertex_groups ?body ! 1)) (vertex_groups ?body))
                    (vertices (ob_mesh ?body) ! j))
          (kept_indices (length (vertices (ob_mesh ?body)))
             (to_delete (vertex_group_data (vertices (ob_mesh ?body))) 1
                (weight_threshold (skin2solid_settings three_group_scene))))"
    and inter: "set (kept_indices (length (vertices (ob_mesh ?body)))
                  (to_delete (vertex_group_data (vertices (ob_mesh ?body))) 0
                     (weight_threshold (skin2solid_settings three_group_scene)))) \<inter>
           set (kept_indices (length (vertices (ob_mesh ?body)))
                  (to_delete (vertex_group_data (vertices (ob_mesh ?body))) 1
                     (weight_threshold (skin2solid_settings three_group_scene)))) =
             {i. i < length (vertices (ob_mesh ?body)) \<and>
                 (\<exists>w1 w2. (0, w1) \<in> set (vertex_group_data (vertices (ob_mesh ?body)) ! i) \<and>
                           (1, w2) \<in> set (vertex_group_data (vertices (ob_mesh ?body)) ! i) \<and>
                           weight_threshold (skin2solid_settings three_group_scene) \<le> w1 \<and>
                           weight_threshold (skin2solid_settings three_group_scene) \<le> w2)}"
    by blast
  from verts1 have verts1': "vertices (ob_mesh dup1) = [\<lparr>groups = [\<lparr>group = 0, weight = 0.9\<rparr>]\<rparr>]"
    unfolding vs th l4 k0 g using kw0 by simp
  from verts2 have verts2': "vertices (ob_mesh dup2) = [\<lparr>groups = [\<lparr>group = 0, weight = 1.0\<rparr>]\<rparr>]"
    unfolding vs th l4 k1 g using kw1 by simp
  have "set [0::nat] \<inter> set [2] = {}"
    by simp
  with inter [unfolded vs th l4 k0 k1]
  have none: "{i. i < 4 \<and>
       (\<exists>w1 w2. (0, w1) \<in> set (vertex_group_data example_verts ! i) \<and>
                 (1, w2) \<in> set (vertex_group_data example_verts ! i) \<and>
                 0.3 \<le> w1 \<and> 0.3 \<le> w2)} = {}"
    by (rule trans [OF sym])
  from run have s': "projr (separate_mesh_by_vertex_groups 1 three_group_scene) = s'"
    and ok: "\<not> isl (separate_mesh_by_vertex_groups 1 three_group_scene)"
    by simp_all
  from obj1 obj2 verts1' verts2' ok none show ?thesis
    unfolding s' len l4 by simp
qed

end
